theory Spec2Isabelle
  imports Complex_Main
begin

section \<open>JavaScript numbers\<close>

text \<open>
  The server (\<^verbatim>\<open>server.js\<close>) computes with JavaScript numbers: the binary64 values,
  the two infinities and \<^verbatim>\<open>NaN\<close>. \<open>Num x\<close> is the finite number with the value
  \<open>x\<close>. The sign of zero is not kept: no operation of the program tells the two
  zeros apart (it never divides by a computed zero), and JSON prints both as \<open>0\<close>.
\<close>

datatype jsnum = Num real | PInf | NInf | NaN

text \<open>
  Rounding to the nearest binary64 value, ties to the even significand. \<open>binade x\<close>
  is the exponent \<open>e\<close> with \<open>2^e \<le> |x| < 2^(e+1)\<close>, not below \<open>-1022\<close> (where
  the subnormal numbers begin); the values around \<open>x\<close> are the multiples of
  \<open>quantum x = 2^(e - 52)\<close>; \<open>rnd x\<close> is the nearest of them; a result of
  \<open>2^1024\<close> or more is an infinity.
\<close>

definition round_even :: "real \<Rightarrow> int" where
  "round_even x =
     (let n = \<lfloor>x\<rfloor>; d = x - of_int n
      in if d < 1 / 2 then n else if 1 / 2 < d then n + 1
         else if even n then n else n + 1)"

definition pow2 :: "int \<Rightarrow> real" where
  "pow2 e = (if 0 \<le> e then 2 ^ nat e else 1 / 2 ^ nat (- e))"

definition binade :: "real \<Rightarrow> int" where
  "binade x = max (- 1022) \<lfloor>log 2 \<bar>x\<bar>\<rfloor>"

definition quantum :: "real \<Rightarrow> real" where
  "quantum x = pow2 (binade x - 52)"

definition rnd :: "real \<Rightarrow> real" where
  "rnd x = of_int (round_even (x / quantum x)) * quantum x"

definition fl :: "real \<Rightarrow> jsnum" where
  "fl x =
     (if x = 0 then Num 0
      else if 2 ^ 1024 \<le> \<bar>rnd x\<bar> then (if 0 < x then PInf else NInf)
      else Num (rnd x))"

text \<open>The real numbers that are binary64 values.\<close>

definition is_double :: "real \<Rightarrow> bool" where
  "is_double x = (fl x = Num x)"

text \<open>
  A decimal literal of the source, such as \<^verbatim>\<open>0.95\<close>, denotes the binary64 value
  nearest to it. Integer literals are written as they are.
\<close>

definition lit :: "real \<Rightarrow> jsnum" where
  "lit x = fl x"

fun isNaN :: "jsnum \<Rightarrow> bool" where
  "isNaN NaN = True"
| "isNaN a = False"

fun js_neg :: "jsnum \<Rightarrow> jsnum" where
  "js_neg (Num x) = Num (- x)"
| "js_neg PInf = NInf"
| "js_neg NInf = PInf"
| "js_neg NaN = NaN"

text \<open>\<^verbatim>\<open>a + b\<close>, \<^verbatim>\<open>a - b\<close> and \<^verbatim>\<open>a * b\<close>: the exact result, rounded.\<close>

fun js_add :: "jsnum \<Rightarrow> jsnum \<Rightarrow> jsnum" where
  "js_add (Num x) (Num y) = fl (x + y)"
| "js_add NaN b = NaN"
| "js_add a NaN = NaN"
| "js_add PInf NInf = NaN"
| "js_add NInf PInf = NaN"
| "js_add PInf b = PInf"
| "js_add a PInf = PInf"
| "js_add NInf b = NInf"
| "js_add a NInf = NInf"

definition js_sub :: "jsnum \<Rightarrow> jsnum \<Rightarrow> jsnum" where
  "js_sub a b = js_add a (js_neg b)"

fun js_mul :: "jsnum \<Rightarrow> jsnum \<Rightarrow> jsnum" where
  "js_mul (Num x) (Num y) = fl (x * y)"
| "js_mul NaN b = NaN"
| "js_mul a NaN = NaN"
| "js_mul PInf (Num y) = (if y = 0 then NaN else if 0 < y then PInf else NInf)"
| "js_mul NInf (Num y) = (if y = 0 then NaN else if 0 < y then NInf else PInf)"
| "js_mul (Num x) PInf = (if x = 0 then NaN else if 0 < x then PInf else NInf)"
| "js_mul (Num x) NInf = (if x = 0 then NaN else if 0 < x then NInf else PInf)"
| "js_mul PInf PInf = PInf"
| "js_mul PInf NInf = NInf"
| "js_mul NInf PInf = NInf"
| "js_mul NInf NInf = PInf"

text \<open>
  \<^verbatim>\<open>a / xs.length\<close>: every division of the program is by the length of an array, a
  non-negative integer below \<open>2^32\<close>. \<^verbatim>\<open>0 / 0\<close> is \<^verbatim>\<open>NaN\<close>.
\<close>

definition js_div_len :: "jsnum \<Rightarrow> nat \<Rightarrow> jsnum" where
  "js_div_len a n =
     (case a of
        Num x \<Rightarrow>
          if n = 0 then (if x = 0 then NaN else if 0 < x then PInf else NInf)
          else fl (x / real n)
      | PInf \<Rightarrow> PInf
      | NInf \<Rightarrow> NInf
      | NaN \<Rightarrow> NaN)"

text \<open>The square root, correctly rounded; of a negative number it is \<^verbatim>\<open>NaN\<close>.\<close>

fun js_sqrt :: "jsnum \<Rightarrow> jsnum" where
  "js_sqrt (Num x) = (if x < 0 then NaN else fl (sqrt x))"
| "js_sqrt PInf = PInf"
| "js_sqrt NInf = NaN"
| "js_sqrt NaN = NaN"

text \<open>\<^verbatim>\<open>a < b\<close>, \<^verbatim>\<open>a > b\<close> and \<^verbatim>\<open>a <= b\<close>: every comparison with \<^verbatim>\<open>NaN\<close> is false.\<close>

fun js_lt :: "jsnum \<Rightarrow> jsnum \<Rightarrow> bool" where
  "js_lt (Num x) (Num y) = (x < y)"
| "js_lt NaN b = False"
| "js_lt a NaN = False"
| "js_lt PInf b = False"
| "js_lt a NInf = False"
| "js_lt NInf b = True"
| "js_lt a PInf = True"

definition js_gt :: "jsnum \<Rightarrow> jsnum \<Rightarrow> bool" where
  "js_gt a b = js_lt b a"

fun js_le :: "jsnum \<Rightarrow> jsnum \<Rightarrow> bool" where
  "js_le (Num x) (Num y) = (x \<le> y)"
| "js_le NaN b = False"
| "js_le a NaN = False"
| "js_le NInf b = True"
| "js_le a PInf = True"
| "js_le PInf b = False"
| "js_le a NInf = False"

text \<open>\<^verbatim>\<open>Math.max(a, b)\<close>.\<close>

definition js_max :: "jsnum \<Rightarrow> jsnum \<Rightarrow> jsnum" where
  "js_max a b = (if isNaN a \<or> isNaN b then NaN else if js_lt a b then b else a)"

text \<open>\<^verbatim>\<open>xs.reduce((sum, x) => sum + f(x), 0)\<close> and the mean built on it.\<close>

definition reduce_sum :: "('a \<Rightarrow> jsnum) \<Rightarrow> 'a list \<Rightarrow> jsnum" where
  "reduce_sum f xs = foldl (\<lambda>sum x. js_add sum (f x)) (Num 0) xs"

definition average :: "('a \<Rightarrow> jsnum) \<Rightarrow> 'a list \<Rightarrow> jsnum" where
  "average f xs = js_div_len (reduce_sum f xs) (length xs)"

text \<open>What the server can throw.\<close>

datatype error =
    DataNotLoaded      \<comment> \<open>\<^verbatim>\<open>throw new Error(...)\<close> of the forecast: no data\<close>
  | RangeError         \<comment> \<open>\<^verbatim>\<open>toISOString\<close> of an invalid date\<close>
  | TypeError          \<comment> \<open>destructuring \<^verbatim>\<open>undefined\<close>\<close>
  | SyntaxError        \<comment> \<open>\<^verbatim>\<open>math.std\<close> of an empty array\<close>
  | ReadError          \<comment> \<open>\<^verbatim>\<open>XLSX.readFile\<close> of a file it cannot parse\<close>

datatype 'a response = Json200 'a | Status400 | Status500 error

section \<open>The bid optimizer\<close>

text \<open>
  One element of the \<^verbatim>\<open>predictions\<close> array. The field \<open>p_timestamp\<close> is the
  time value (milliseconds since the epoch) whose ISO rendering the server emits.
\<close>

record forecast_point =
  p_timestamp :: int
  predicted_price :: jsnum
  confidence_lower :: jsnum
  confidence_upper :: jsnum
  p_confidence_level :: jsnum

record cost_params =
  generationCost :: jsnum
  upwardCost :: jsnum
  downwardCost :: jsnum

text \<open>
  \<^verbatim>\<open>config\<close> of the optimizer; \<open>cost_params = None\<close> is a config without the
  field, where the destructuring \<^verbatim>\<open>const { generationCost, ... } = cost_params\<close>
  throws.
\<close>

record optimize_config =
  cost_params :: "cost_params option"

record bid =
  time_period :: int
  bid_price :: jsnum
  bid_capacity :: jsnum
  expected_profit :: jsnum
  b_predicted_price :: jsnum

text \<open>
  The result; of \<^verbatim>\<open>optimization_info\<close> only the echoed cost parameters are kept,
  its other two fields are constants.
\<close>

record optimization =
  success :: bool
  total_expected_profit :: jsnum    \<comment> \<open>field \<^verbatim>\<open>expected_profit\<close> of the result\<close>
  optimal_capacity :: jsnum
  strategy :: string
  risk_level :: string
  bidding_schedule :: "bid list"
  cost_parameters :: cost_params    \<comment> \<open>\<^verbatim>\<open>optimization_info.cost_parameters\<close>\<close>

text \<open>The body of the \<^verbatim>\<open>forEach\<close> callback up to the \<^verbatim>\<open>push\<close>: one decision.\<close>

definition bid_of :: "jsnum \<Rightarrow> forecast_point \<Rightarrow> bid" where
  "bid_of cost pred =
     (let predictedPrice = predicted_price pred;
          (bidPrice, bidCapacity) =
            (if js_gt predictedPrice (js_mul cost (lit 1.5))
               then (js_mul predictedPrice (lit 0.95), Num 150)
             else if js_lt predictedPrice (js_mul cost (lit 1.2))
               then (js_max (js_mul cost (lit 1.1)) (js_mul predictedPrice (lit 0.9)), Num 50)
             else (predictedPrice, Num 100));
          expectedProfit = js_mul (js_sub bidPrice cost) bidCapacity
      in \<lparr> time_period = p_timestamp pred,
           bid_price = bidPrice,
           bid_capacity = bidCapacity,
           expected_profit = expectedProfit,
           b_predicted_price = predictedPrice \<rparr>)"

text \<open>
  The callback as a state transformer on the two variables it updates,
  \<^verbatim>\<open>totalProfit\<close> and \<^verbatim>\<open>biddingSchedule\<close>; \<^verbatim>\<open>forEach\<close> folds it over the
  array from the left.
\<close>

definition optimize_step :: "jsnum \<Rightarrow> jsnum \<times> bid list \<Rightarrow> forecast_point \<Rightarrow> jsnum \<times> bid list" where
  "optimize_step cost acc pred =
     (let b = bid_of cost pred
      in (js_add (fst acc) (expected_profit b), snd acc @ [b]))"

definition riskLevel_of :: "jsnum \<Rightarrow> jsnum \<Rightarrow> string" where
  "riskLevel_of avgBidPrice avgPredictedPrice =
     (if js_gt avgBidPrice (js_mul avgPredictedPrice (lit 1.1)) then ''HIGH''
      else if js_gt avgBidPrice (js_mul avgPredictedPrice (lit 1.05)) then ''MEDIUM''
      else ''LOW'')"

definition runOptimizationAlgorithm ::
    "forecast_point list \<Rightarrow> optimize_config \<Rightarrow> error + optimization" where
  "runOptimizationAlgorithm predictions config =
     (case cost_params config of
        None \<Rightarrow> Inl TypeError
      | Some cp \<Rightarrow>
          (let (totalProfit, biddingSchedule) =
                 foldl (optimize_step (generationCost cp)) (Num 0, []) predictions;
               avgBidPrice = average bid_price biddingSchedule;
               avgPredictedPrice = average predicted_price predictions;
               riskLevel = riskLevel_of avgBidPrice avgPredictedPrice
           in Inr \<lparr> success = True,
                    total_expected_profit = totalProfit,
                    optimal_capacity = average bid_capacity biddingSchedule,
                    strategy = (if js_gt totalProfit (Num 0) then ''AGGRESSIVE'' else ''CONSERVATIVE''),
                    risk_level = riskLevel,
                    bidding_schedule = biddingSchedule,
                    cost_parameters = cp \<rparr>))"

text \<open>
  The route \<^verbatim>\<open>POST /api/optimize\<close>. A missing \<^verbatim>\<open>predictions\<close> or
  \<^verbatim>\<open>config\<close> in the body is \<open>None\<close>; an array, also the empty one, is truthy.
\<close>

definition api_optimize ::
    "forecast_point list option \<Rightarrow> optimize_config option \<Rightarrow> optimization response" where
  "api_optimize predictions config =
     (case (predictions, config) of
        (Some ps, Some c) \<Rightarrow>
          (case runOptimizationAlgorithm ps c of
             Inr result \<Rightarrow> Json200 result
           | Inl e \<Rightarrow> Status500 e)
      | _ \<Rightarrow> Status400)"

section \<open>Loading the observations\<close>

text \<open>
  A cell of a sheet row as \<^verbatim>\<open>XLSX.utils.sheet_to_json\<close> delivers it; a key the
  row does not have reads as \<^verbatim>\<open>undefined\<close>. Text is kept as its UTF-8 bytes.
\<close>

datatype cell = Undefined | Str string | Number real | Bool bool

type_synonym row = "(string \<times> cell) list"

definition get :: "row \<Rightarrow> string \<Rightarrow> cell" where
  "get r k = (case map_of r k of None \<Rightarrow> Undefined | Some v \<Rightarrow> v)"

fun truthy :: "cell \<Rightarrow> bool" where
  "truthy Undefined = False"
| "truthy (Str s) = (s \<noteq> [])"
| "truthy (Number x) = (x \<noteq> 0)"
| "truthy (Bool b) = b"

text \<open>\<^verbatim>\<open>a || b\<close> on cells.\<close>

definition js_or :: "cell \<Rightarrow> cell \<Rightarrow> cell" where
  "js_or a b = (if truthy a then a else b)"

text \<open>\<^verbatim>\<open>x || 0\<close> on a number: \<^verbatim>\<open>NaN\<close> and zero are the falsy numbers.\<close>

definition or_zero :: "jsnum \<Rightarrow> jsnum" where
  "or_zero a = (case a of NaN \<Rightarrow> Num 0 | Num v \<Rightarrow> if v = 0 then Num 0 else Num v | b \<Rightarrow> b)"

text \<open>
  \<^verbatim>\<open>parseFloat\<close>, the language's builtin. Leading white space and line
  terminators are skipped (the characters of one byte, and those of two and three
  bytes: U+00A0, U+1680, U+2000 to U+200A, U+2028, U+2029, U+202F, U+205F, U+3000 and
  U+FEFF); then the longest prefix that is a decimal literal (sign, digits, fraction,
  exponent) or a signed \<^verbatim>\<open>Infinity\<close> is the result, rounded to a number, and
  \<^verbatim>\<open>NaN\<close> when there is none. A number cell is its own value;
  \<^verbatim>\<open>undefined\<close>, \<^verbatim>\<open>true\<close> and \<^verbatim>\<open>false\<close> are first turned into their names,
  which are no numbers.
\<close>

definition ws_bytes :: "string \<Rightarrow> nat" where
  "ws_bytes s =
     (if take 1 s \<in> {[CHR 0x09], [CHR 0x0A], [CHR 0x0B], [CHR 0x0C], [CHR 0x0D], [CHR 0x20]}
        then 1
      else if take 2 s = [CHR 0xC2, CHR 0xA0] then 2
      else if take 3 s \<in>
           {[CHR 0xE1, CHR 0x9A, CHR 0x80],
            [CHR 0xE2, CHR 0x80, CHR 0x80], [CHR 0xE2, CHR 0x80, CHR 0x81],
            [CHR 0xE2, CHR 0x80, CHR 0x82], [CHR 0xE2, CHR 0x80, CHR 0x83],
            [CHR 0xE2, CHR 0x80, CHR 0x84], [CHR 0xE2, CHR 0x80, CHR 0x85],
            [CHR 0xE2, CHR 0x80, CHR 0x86], [CHR 0xE2, CHR 0x80, CHR 0x87],
            [CHR 0xE2, CHR 0x80, CHR 0x88], [CHR 0xE2, CHR 0x80, CHR 0x89],
            [CHR 0xE2, CHR 0x80, CHR 0x8A],
            [CHR 0xE2, CHR 0x80, CHR 0xA8], [CHR 0xE2, CHR 0x80, CHR 0xA9],
            [CHR 0xE2, CHR 0x80, CHR 0xAF], [CHR 0xE2, CHR 0x81, CHR 0x9F],
            [CHR 0xE3, CHR 0x80, CHR 0x80], [CHR 0xEF, CHR 0xBB, CHR 0xBF]}
        then 3
      else 0)"

fun skip_ws :: "nat \<Rightarrow> string \<Rightarrow> string" where
  "skip_ws 0 s = s"
| "skip_ws (Suc n) s = (if ws_bytes s = 0 then s else skip_ws n (drop (ws_bytes s) s))"

definition is_digit :: "char \<Rightarrow> bool" where
  "is_digit c = (48 \<le> (of_char c :: nat) \<and> (of_char c :: nat) \<le> 57)"

definition digits_val :: "string \<Rightarrow> nat" where
  "digits_val ds = foldl (\<lambda>n c. 10 * n + (of_char c - 48)) 0 ds"

definition scale10 :: "real \<Rightarrow> bool \<Rightarrow> nat \<Rightarrow> real" where
  "scale10 x neg e = (if neg then x / 10 ^ e else x * 10 ^ e)"

definition parse_sign :: "string \<Rightarrow> bool \<times> string" where
  "parse_sign s =
     (case s of
        [] \<Rightarrow> (False, [])
      | c # r \<Rightarrow> if c = CHR ''-'' then (True, r)
                 else if c = CHR ''+'' then (False, r)
                 else (False, s))"

definition parse_exponent :: "string \<Rightarrow> bool \<times> nat" where
  "parse_exponent s =
     (case s of
        [] \<Rightarrow> (False, 0)
      | c # r \<Rightarrow>
          if c = CHR ''e'' \<or> c = CHR ''E'' then
            (let (neg, r') = parse_sign r
             in if takeWhile is_digit r' = [] then (False, 0)
                else (neg, digits_val (takeWhile is_digit r')))
          else (False, 0))"

definition parseFloat_string :: "string \<Rightarrow> jsnum" where
  "parseFloat_string s =
     (let (neg, s1) = parse_sign (skip_ws (length s) s);
          ip = takeWhile is_digit s1;
          s2 = dropWhile is_digit s1;
          (fp, s3) = (case s2 of
                        [] \<Rightarrow> ([], [])
                      | c # r \<Rightarrow> if c = CHR ''.''
                                 then (takeWhile is_digit r, dropWhile is_digit r)
                                 else ([], s2));
          (eneg, e) = parse_exponent s3;
          m = real (digits_val ip) + real (digits_val fp) / 10 ^ length fp
      in if take 8 s1 = ''Infinity'' then (if neg then NInf else PInf)
         else if ip = [] \<and> fp = [] then NaN
         else fl (scale10 (if neg then - m else m) eneg e))"

fun parseFloat :: "cell \<Rightarrow> jsnum" where
  "parseFloat (Number x) = fl x"
| "parseFloat (Str s) = parseFloat_string s"
| "parseFloat Undefined = NaN"
| "parseFloat (Bool b) = NaN"

text \<open>The column names the loader looks for, as UTF-8 bytes.\<close>

definition key_time_zh :: string where
  "key_time_zh = [CHR 0xE6, CHR 0x97, CHR 0xB6, CHR 0xE9, CHR 0x97, CHR 0xB4]"

definition key_price_zh :: string where
  "key_price_zh = [CHR 0xE7, CHR 0x94, CHR 0xB5, CHR 0xE4, CHR 0xBB, CHR 0xB7]"

definition key_load_zh :: string where
  "key_load_zh = [CHR 0xE8, CHR 0xB4, CHR 0x9F, CHR 0xE8, CHR 0x8D, CHR 0xB7]"

definition key_demand_zh :: string where
  "key_demand_zh = [CHR 0xE9, CHR 0x9C, CHR 0x80, CHR 0xE6, CHR 0xB1, CHR 0x82]"

definition key_supply_zh :: string where
  "key_supply_zh = [CHR 0xE4, CHR 0xBE, CHR 0x9B, CHR 0xE5, CHR 0xBA, CHR 0x94]"

record observation =
  timestamp :: cell
  price :: jsnum
  load :: jsnum
  demand :: jsnum
  supply_val :: jsnum    \<comment> \<open>field \<^verbatim>\<open>supply\<close>\<close>

text \<open>The two module variables.\<close>

record state =
  powerMarketData :: "observation list"
  isDataLoaded :: bool

definition initial_state :: state where
  "initial_state = \<lparr> powerMarketData = [], isDataLoaded = False \<rparr>"

text \<open>The callback of \<^verbatim>\<open>allData.map\<close>.\<close>

definition preprocess :: "row \<Rightarrow> observation" where
  "preprocess r =
     \<lparr> timestamp = js_or (get r key_time_zh) (js_or (get r ''timestamp'') (get r ''Time'')),
       price = or_zero (parseFloat (js_or (get r key_price_zh) (js_or (get r ''price'') (get r ''Price'')))),
       load = or_zero (parseFloat (js_or (get r key_load_zh) (js_or (get r ''load'') (get r ''Load'')))),
       demand = or_zero (parseFloat (js_or (get r key_demand_zh) (js_or (get r ''demand'') (get r ''Demand'')))),
       supply_val = or_zero (parseFloat (js_or (get r key_supply_zh) (js_or (get r ''supply'') (get r ''Supply'')))) \<rparr>"

text \<open>The callback of \<^verbatim>\<open>.filter\<close>: \<^verbatim>\<open>item.timestamp && !isNaN(item.price)\<close>.\<close>

definition retained :: "observation \<Rightarrow> bool" where
  "retained item = (truthy (timestamp item) \<and> \<not> isNaN (price item))"

text \<open>
  A data file: absent (\<^verbatim>\<open>fs.existsSync\<close> is false), present but rejected by
  \<^verbatim>\<open>XLSX.readFile\<close> (which throws), or the rows of its first sheet.
\<close>

datatype source = Absent | Unreadable | Sheet "row list"

definition read_source :: "source \<Rightarrow> error + row list" where
  "read_source f =
     (case f of Absent \<Rightarrow> Inr [] | Unreadable \<Rightarrow> Inl ReadError | Sheet rows \<Rightarrow> Inr rows)"

text \<open>
  \<^verbatim>\<open>loadExcelData\<close>: the result is the returned flag and the module variables
  afterwards. An exception leaves them as they were.
\<close>

definition loadExcelData :: "source \<Rightarrow> source \<Rightarrow> state \<Rightarrow> bool \<times> state" where
  "loadExcelData mayFile juneFile st =
     (case read_source mayFile of
        Inl e \<Rightarrow> (False, st)
      | Inr mayData \<Rightarrow>
          (case read_source juneFile of
             Inl e \<Rightarrow> (False, st)
           | Inr juneData \<Rightarrow>
               (let allData = ([] @ mayData) @ juneData
                in (True, \<lparr> powerMarketData = filter retained (map preprocess allData),
                            isDataLoaded = True \<rparr>))))"

section \<open>The forecast\<close>

text \<open>
  What the forecast takes from its surroundings: the offset of local time from UTC in
  milliseconds at a given instant (for \<^verbatim>\<open>getHours\<close> and \<^verbatim>\<open>getDay\<close>), and the
  values \<^verbatim>\<open>Math.random()\<close> returns, in the order of the calls.
\<close>

record env =
  localTZA :: "int \<Rightarrow> int"
  math_random :: "nat \<Rightarrow> real"

text \<open>
  The request. \<open>prediction_date\<close> is the time \<^verbatim>\<open>new Date(prediction_date)\<close> is
  given, in milliseconds since the epoch, \<open>None\<close> when the text is no date at all.
  A \<^verbatim>\<open>Date\<close> holds a time of at most 8.64e15 milliseconds either way and is
  invalid beyond.
\<close>

record predict_config =
  prediction_date :: "int option"
  prediction_hours :: jsnum
  confidence_level :: jsnum

definition timeClip :: "int \<Rightarrow> int option" where
  "timeClip t = (if \<bar>t\<bar> \<le> 8640000000000000 then Some t else None)"

definition new_Date :: "int option \<Rightarrow> int option" where
  "new_Date v = (case v of None \<Rightarrow> None | Some t \<Rightarrow> timeClip t)"

text \<open>
  The statistics and the result; the constant texts of \<^verbatim>\<open>model_info\<close> are left
  out.
\<close>

record statistics =
  average_price :: jsnum
  total_points :: nat
  s_confidence_level :: jsnum
  based_on_real_data :: bool
  real_data_points :: nat

record prediction_result =
  p_success :: bool
  predictions :: "forecast_point list"
  statistics :: statistics
  accuracy :: jsnum

text \<open>\<^verbatim>\<open>xs.slice(-n)\<close>: the last \<open>n\<close> elements, all of them when there are fewer.\<close>

definition slice_last :: "nat \<Rightarrow> 'a list \<Rightarrow> 'a list" where
  "slice_last n xs = drop (length xs - n) xs"

text \<open>
  \<^verbatim>\<open>math.std\<close> of the mathjs library on an array of numbers, with its default
  normalisation \<^verbatim>\<open>'unbiased'\<close>. It throws on the empty array. Otherwise it adds the
  values up from the first, divides by their number for the mean, adds up the squared
  differences from the mean in the same way, divides by the number less one (the
  variance of a single value is \<open>0\<close>; a sum that is \<^verbatim>\<open>NaN\<close> is the variance
  itself), and takes the square root.
\<close>

definition sum_from_first :: "jsnum list \<Rightarrow> jsnum" where
  "sum_from_first xs = (case xs of [] \<Rightarrow> Num 0 | v # vs \<Rightarrow> foldl js_add v vs)"

definition math_variance :: "jsnum list \<Rightarrow> jsnum" where
  "math_variance xs =
     (let num = length xs;
          mean = js_div_len (sum_from_first xs) num;
          sum = sum_from_first (map (\<lambda>value. js_mul (js_sub value mean) (js_sub value mean)) xs)
      in if isNaN sum then sum
         else if num = 1 then Num 0
         else js_div_len sum (num - 1))"

definition math_std :: "jsnum list \<Rightarrow> error + jsnum" where
  "math_std xs =
     (if length xs = 0 then Inl SyntaxError else Inr (js_sqrt (math_variance xs)))"

text \<open>\<^verbatim>\<open>getHours\<close> and \<^verbatim>\<open>getDay\<close> of a valid date, as the language defines them.\<close>

definition getHours :: "env \<Rightarrow> int \<Rightarrow> int" where
  "getHours e t = ((t + localTZA e t) div 3600000) mod 24"

definition getDay :: "env \<Rightarrow> int \<Rightarrow> int" where
  "getDay e t = ((t + localTZA e t) div 86400000 + 4) mod 7"

definition timeFactor_of :: "int \<Rightarrow> int \<Rightarrow> jsnum" where
  "timeFactor_of hourOfDay dayOfWeek =
     (let tf0 = Num 1;
          tf1 = (if hourOfDay \<ge> 8 \<and> hourOfDay \<le> 10 then lit 1.2 else tf0);
          tf2 = (if hourOfDay \<ge> 18 \<and> hourOfDay \<le> 20 then lit 1.3 else tf1)
      in if dayOfWeek = 0 \<or> dayOfWeek = 6 then js_mul tf2 (lit 0.9) else tf2)"

text \<open>
  The two summands of the local \<^verbatim>\<open>predictedPrice\<close>, before any clamping; \<open>r\<close> is
  the random draw.
\<close>

definition noise_of :: "jsnum \<Rightarrow> real \<Rightarrow> jsnum" where
  "noise_of priceStd r = js_mul (js_mul (js_sub (Num r) (lit 0.5)) priceStd) (lit 0.3)"

definition predictedPrice_of :: "jsnum \<Rightarrow> jsnum \<Rightarrow> jsnum \<Rightarrow> real \<Rightarrow> jsnum" where
  "predictedPrice_of avgPrice priceStd timeFactor r =
     js_add (js_mul avgPrice timeFactor) (noise_of priceStd r)"

text \<open>
  One round of the loop, for a valid \<^verbatim>\<open>timestamp\<close> \<open>t\<close> and the draw \<open>r\<close>:
  the object pushed.
\<close>

definition prediction_point :: "env \<Rightarrow> jsnum \<Rightarrow> jsnum \<Rightarrow> jsnum \<Rightarrow> int \<Rightarrow> real \<Rightarrow> forecast_point" where
  "prediction_point e avgPrice priceStd level t r =
     (let hourOfDay = getHours e t;
          dayOfWeek = getDay e t;
          timeFactor = timeFactor_of hourOfDay dayOfWeek;
          predictedPrice = predictedPrice_of avgPrice priceStd timeFactor r;
          confidenceRange = js_mul (js_mul priceStd (js_sub (Num 1) level)) (Num 2)
      in \<lparr> p_timestamp = t,
           predicted_price = js_max (Num 0) predictedPrice,
           confidence_lower = js_max (Num 0) (js_sub predictedPrice confidenceRange),
           confidence_upper = js_add predictedPrice confidenceRange,
           p_confidence_level = level \<rparr>)"

text \<open>
  One round for the loop counter \<open>i\<close>: \<^verbatim>\<open>new Date(baseDate.getTime() + i * 15 * 60 * 1000)\<close>
  and the push. The time is computed as an integer: while the loop runs, the products
  \<open>i * 15\<close>, \<open>i * 900\<close> and \<open>i * 900000\<close> are multiples of 1, 4 and 32 below
  \<open>2^55\<close>, which binary64 holds exactly; a sum inside the range of dates is below
  \<open>2^53\<close> and exact, and a sum beyond the range is still beyond it after rounding.
  When \<^verbatim>\<open>baseDate\<close> or the new date is invalid, \<^verbatim>\<open>toISOString\<close> throws.
\<close>

definition prediction_step ::
    "env \<Rightarrow> jsnum \<Rightarrow> jsnum \<Rightarrow> jsnum \<Rightarrow> int option \<Rightarrow> nat \<Rightarrow> error + forecast_point" where
  "prediction_step e avgPrice priceStd level baseDate i =
     (case baseDate of
        None \<Rightarrow> Inl RangeError
      | Some b \<Rightarrow>
          (case new_Date (Some (b + int i * 15 * 60 * 1000)) of
             None \<Rightarrow> Inl RangeError
           | Some t \<Rightarrow>
               Inr (prediction_point e avgPrice priceStd level t (math_random e i))))"

text \<open>
  The \<^verbatim>\<open>for\<close> loop, from the counter \<open>i\<close> and the array built so far. It ends:
  the dates run out of their range after finitely many rounds, whatever the horizon.
\<close>

function prediction_loop ::
    "env \<Rightarrow> jsnum \<Rightarrow> jsnum \<Rightarrow> predict_config \<Rightarrow> int option \<Rightarrow> nat \<Rightarrow> forecast_point list
       \<Rightarrow> error + forecast_point list" where
  "prediction_loop e avgPrice priceStd config baseDate i acc =
     (if js_lt (Num (real i)) (prediction_hours config) then
        (case prediction_step e avgPrice priceStd (confidence_level config) baseDate i of
           Inl err \<Rightarrow> Inl err
         | Inr p \<Rightarrow> prediction_loop e avgPrice priceStd config baseDate (i + 1) (acc @ [p]))
      else Inr acc)"
  by pat_completeness auto
termination
proof (relation "measure (\<lambda>(e, avgPrice, priceStd, config, baseDate, i, acc).
                   case baseDate of
                     None \<Rightarrow> 0
                   | Some b \<Rightarrow> nat ((8640000000000000 - b) div 900000 + 1) - i)")
  show "wf (measure (\<lambda>(e, avgPrice, priceStd, config, baseDate, i, acc).
                   case baseDate of
                     None \<Rightarrow> 0
                   | Some b \<Rightarrow> nat ((8640000000000000 - b) div 900000 + 1) - i))"
    by simp
next
  fix e :: env and avgPrice priceStd :: jsnum and config :: predict_config
    and baseDate :: "int option" and i :: nat and acc :: "forecast_point list"
    and x2 :: forecast_point
  assume "prediction_step e avgPrice priceStd (confidence_level config) baseDate i = Inr x2"
  then obtain b where b: "baseDate = Some b" and "b + int i * 900000 \<le> 8640000000000000"
    by (auto simp: prediction_step_def new_Date_def timeClip_def
          split: option.splits if_splits)
  then have "900000 * int i \<le> 8640000000000000 - b"
    by simp
  then have "(900000 * int i) div 900000 \<le> (8640000000000000 - b) div 900000"
    by (rule zdiv_mono1) simp
  then have "int i \<le> (8640000000000000 - b) div 900000"
    by simp
  then show "((e, avgPrice, priceStd, config, baseDate, i + 1, acc @ [x2]),
              (e, avgPrice, priceStd, config, baseDate, i, acc))
             \<in> measure (\<lambda>(e, avgPrice, priceStd, config, baseDate, i, acc).
                   case baseDate of
                     None \<Rightarrow> 0
                   | Some b \<Rightarrow> nat ((8640000000000000 - b) div 900000 + 1) - i)"
    by (simp add: b)
qed

declare prediction_loop.simps [simp del]

definition runPredictionAlgorithm :: "env \<Rightarrow> state \<Rightarrow> predict_config \<Rightarrow> error + prediction_result" where
  "runPredictionAlgorithm e st config =
     (if \<not> isDataLoaded st \<or> length (powerMarketData st) = 0 then Inl DataNotLoaded
      else
        (let recentData = slice_last 168 (powerMarketData st);
             avgPrice = js_div_len (reduce_sum price recentData) (length recentData)
         in case math_std (map price recentData) of
              Inl err \<Rightarrow> Inl err
            | Inr priceStd \<Rightarrow>
                (case prediction_loop e avgPrice priceStd config
                        (new_Date (prediction_date config)) 0 [] of
                   Inl err \<Rightarrow> Inl err
                 | Inr ps \<Rightarrow>
                     Inr \<lparr> p_success = True,
                           predictions = ps,
                           statistics =
                             \<lparr> average_price = average predicted_price ps,
                               total_points = length ps,
                               s_confidence_level = confidence_level config,
                               based_on_real_data = True,
                               real_data_points = length (powerMarketData st) \<rparr>,
                           accuracy = js_add (lit 0.85)
                                        (js_mul (Num (math_random e (length ps))) (lit 0.1)) \<rparr>)))"

text \<open>The route \<^verbatim>\<open>POST /api/predict\<close>; \<open>None\<close> is a body without \<^verbatim>\<open>config\<close>.\<close>

definition api_predict :: "env \<Rightarrow> state \<Rightarrow> predict_config option \<Rightarrow> prediction_result response" where
  "api_predict e st config =
     (case config of
        None \<Rightarrow> Status400
      | Some c \<Rightarrow>
          (case runPredictionAlgorithm e st c of
             Inr result \<Rightarrow> Json200 result
           | Inl err \<Rightarrow> Status500 err))"

section \<open>Sample surroundings\<close>

text \<open>
  Inputs for evaluating the model: local time is UTC and every call of
  \<^verbatim>\<open>Math.random()\<close> returns \<open>1/16\<close>; a loaded store of a hundred observations,
  ninety-nine with price \<open>0\<close> and one with price \<open>100\<close>.
\<close>

definition utc_env :: env where
  "utc_env = \<lparr> localTZA = (\<lambda>t. 0), math_random = (\<lambda>k. 1 / 16) \<rparr>"

definition sample_observation :: "jsnum \<Rightarrow> observation" where
  "sample_observation p =
     \<lparr> timestamp = Str ''2025-06-30'', price = p, load = Num 0, demand = Num 0,
       supply_val = Num 0 \<rparr>"

definition spike_store :: state where
  "spike_store =
     \<lparr> powerMarketData = replicate 99 (sample_observation (Num 0)) @ [sample_observation (Num 100)],
       isDataLoaded = True \<rparr>"

text \<open>A loaded store with the single price \<open>p\<close>.\<close>

definition single_store :: "jsnum \<Rightarrow> state" where
  "single_store p = \<lparr> powerMarketData = [sample_observation p], isDataLoaded = True \<rparr>"

section \<open>Properties of the rounding\<close>

text \<open>
  What the proofs below use of the rounding: it is monotone and symmetric, it leaves
  the binary64 values as they are, and at a given number it can be computed from the
  exponent and the integer significand of the result.
\<close>

subsection \<open>Rounding to an integer\<close>

lemma round_even_of_int [simp]: "round_even (of_int n) = n"
  by (simp add: round_even_def)

lemma round_even_zero [simp]: "round_even 0 = 0"
  by (simp add: round_even_def)

lemma round_even_floor: "\<lfloor>x\<rfloor> \<le> round_even x" "round_even x \<le> \<lfloor>x\<rfloor> + 1"
  by (simp_all add: round_even_def Let_def)

lemma round_even_mono:
  assumes "x \<le> y"
  shows "round_even x \<le> round_even y"
proof (cases "\<lfloor>x\<rfloor> = \<lfloor>y\<rfloor>")
  case True
  then show ?thesis
    using assms by (auto simp: round_even_def Let_def)
next
  case False
  then have "\<lfloor>x\<rfloor> + 1 \<le> \<lfloor>y\<rfloor>"
    using floor_mono [OF assms] by linarith
  then show ?thesis
    using round_even_floor(2) [of x] round_even_floor(1) [of y] by linarith
qed

lemma round_even_minus: "round_even (- x) = - round_even x"
proof (cases "x \<in> \<int>")
  case True
  then obtain n where "x = of_int n"
    by (auto elim: Ints_cases)
  then show ?thesis
    using round_even_of_int [of "- n"] by simp
next
  case False
  then have "x \<noteq> of_int \<lfloor>x\<rfloor>"
    by (metis Ints_of_int)
  then have f: "\<lfloor>- x\<rfloor> = - \<lfloor>x\<rfloor> - 1"
    by (simp add: floor_minus ceiling_altdef)
  show ?thesis
    unfolding round_even_def Let_def f
    by (auto simp: field_simps)
qed

lemma round_even_ge: "of_int a \<le> x \<Longrightarrow> a \<le> round_even x"
  using round_even_mono [of "of_int a" x] by simp

lemma round_even_le: "x \<le> of_int b \<Longrightarrow> round_even x \<le> b"
  using round_even_mono [of x "of_int b"] by simp

subsection \<open>Powers of two and the exponent of a number\<close>

lemma pow2_powr: "pow2 e = 2 powr (of_int e)"
proof (cases "0 \<le> e")
  case True
  then show ?thesis
    by (simp add: pow2_def powr_realpow [symmetric])
next
  case False
  define n where "n = nat (- e)"
  have e: "real_of_int e = - real n"
    using False by (simp add: n_def)
  have "2 powr (real_of_int e) = 1 / 2 powr real n"
    unfolding e by (simp add: powr_minus_divide)
  also have "\<dots> = 1 / 2 ^ n"
    by (simp add: powr_realpow)
  finally show ?thesis
    using False by (simp add: pow2_def n_def)
qed

lemma pow2_pos [simp]: "0 < pow2 e"
  by (simp add: pow2_powr)

lemma pow2_abs [simp]: "\<bar>pow2 e\<bar> = pow2 e"
  by (simp add: abs_of_pos)

lemma pow2_add: "pow2 (a + b) = pow2 a * pow2 b"
  by (simp add: pow2_powr powr_add)

lemma pow2_mono: "a \<le> b \<Longrightarrow> pow2 a \<le> pow2 b"
  by (simp add: pow2_powr)

lemma pow2_53: "pow2 53 = 2 ^ 53" and pow2_52: "pow2 52 = 2 ^ 52"
  by (simp_all add: pow2_def)

lemma binade_minus [simp]: "binade (- x) = binade x"
  by (simp add: binade_def)

lemma binade_ge: "- 1022 \<le> binade x"
  by (simp add: binade_def)

lemma floor_log_bounds:
  assumes "x \<noteq> 0"
  shows "pow2 \<lfloor>log 2 \<bar>x\<bar>\<rfloor> \<le> \<bar>x\<bar>" and "\<bar>x\<bar> < pow2 (\<lfloor>log 2 \<bar>x\<bar>\<rfloor> + 1)"
  using assms floor_log_eq_powr_iff [of "\<bar>x\<bar>" 2 "\<lfloor>log 2 \<bar>x\<bar>\<rfloor>"]
  by (simp_all add: pow2_powr)

lemma binade_upper:
  assumes "x \<noteq> 0"
  shows "\<bar>x\<bar> < pow2 (binade x + 1)"
proof -
  have "\<bar>x\<bar> < pow2 (\<lfloor>log 2 \<bar>x\<bar>\<rfloor> + 1)"
    using assms by (rule floor_log_bounds)
  also have "\<dots> \<le> pow2 (binade x + 1)"
    by (rule pow2_mono) (simp add: binade_def)
  finally show ?thesis .
qed

lemma binade_lower:
  assumes "x \<noteq> 0" and "- 1022 < binade x"
  shows "pow2 (binade x) \<le> \<bar>x\<bar>"
proof -
  have "binade x = \<lfloor>log 2 \<bar>x\<bar>\<rfloor>"
    using assms(2) by (simp add: binade_def max_def split: if_splits)
  then show ?thesis
    using floor_log_bounds(1) [OF assms(1)] by simp
qed

lemma binade_eq:
  assumes "pow2 e \<le> \<bar>x\<bar>" and "\<bar>x\<bar> < pow2 (e + 1)" and "- 1022 \<le> e"
  shows "binade x = e"
proof -
  have "0 < \<bar>x\<bar>"
    using assms(1) pow2_pos [of e] by linarith
  then have "\<lfloor>log 2 \<bar>x\<bar>\<rfloor> = e"
    using assms(1,2) floor_log_eq_powr_iff [of "\<bar>x\<bar>" 2 e] by (simp add: pow2_powr)
  then show ?thesis
    using assms(3) by (simp add: binade_def)
qed

lemma binade_small:
  assumes "x \<noteq> 0" and "\<bar>x\<bar> < pow2 (- 1022)"
  shows "binade x = - 1022"
proof -
  have "pow2 \<lfloor>log 2 \<bar>x\<bar>\<rfloor> < pow2 (- 1022)"
    using floor_log_bounds(1) [OF assms(1)] assms(2) by linarith
  then have "\<lfloor>log 2 \<bar>x\<bar>\<rfloor> < - 1022"
    using pow2_mono [of "- 1022" "\<lfloor>log 2 \<bar>x\<bar>\<rfloor>"] by linarith
  then show ?thesis
    by (simp add: binade_def)
qed

lemma binade_mono:
  assumes "0 < x" and "x \<le> y"
  shows "binade x \<le> binade y"
proof -
  have "log 2 \<bar>x\<bar> \<le> log 2 \<bar>y\<bar>"
    using assms by simp
  then have "\<lfloor>log 2 \<bar>x\<bar>\<rfloor> \<le> \<lfloor>log 2 \<bar>y\<bar>\<rfloor>"
    by (rule floor_mono)
  then show ?thesis
    by (simp add: binade_def)
qed

lemma quantum_pos [simp]: "0 < quantum x"
  by (simp add: quantum_def)

lemma quantum_nonneg [simp]: "0 \<le> quantum x"
  by (simp add: less_imp_le)

lemma quantum_minus [simp]: "quantum (- x) = quantum x"
  by (simp add: quantum_def)

lemma rnd_minus: "rnd (- x) = - rnd x"
  by (simp add: rnd_def round_even_minus)

lemma rnd_zero [simp]: "rnd 0 = 0"
  by (simp add: rnd_def)

lemma rnd_nonneg:
  assumes "0 \<le> x"
  shows "0 \<le> rnd x"
proof -
  have "real_of_int 0 \<le> x / quantum x"
    using assms by simp
  then have "0 \<le> round_even (x / quantum x)"
    by (rule round_even_ge)
  then show ?thesis
    by (simp add: rnd_def)
qed

lemma quantum_53: "2 ^ 53 * quantum x = pow2 (binade x + 1)"
  and quantum_52: "2 ^ 52 * quantum x = pow2 (binade x)"
proof -
  have "pow2 (53 + (binade x - 52)) = pow2 53 * pow2 (binade x - 52)"
    by (rule pow2_add)
  then show "2 ^ 53 * quantum x = pow2 (binade x + 1)"
    by (simp add: quantum_def pow2_53 algebra_simps)
  have "pow2 (52 + (binade x - 52)) = pow2 52 * pow2 (binade x - 52)"
    by (rule pow2_add)
  then show "2 ^ 52 * quantum x = pow2 (binade x)"
    by (simp add: quantum_def pow2_52)
qed

lemma rnd_upper:
  assumes "0 < x"
  shows "rnd x \<le> pow2 (binade x + 1)"
proof -
  have "x < pow2 (binade x + 1)"
    using binade_upper [of x] assms by simp
  then have "x < 2 ^ 53 * quantum x"
    by (simp only: quantum_53)
  then have "x / quantum x \<le> real_of_int (2 ^ 53)"
    by (simp add: field_simps)
  then have "round_even (x / quantum x) \<le> 2 ^ 53"
    by (rule round_even_le)
  then have "real_of_int (round_even (x / quantum x)) \<le> real_of_int (2 ^ 53)"
    by (simp only: of_int_le_iff)
  then have "real_of_int (round_even (x / quantum x)) \<le> 2 ^ 53"
    by simp
  then have "rnd x \<le> 2 ^ 53 * quantum x"
    unfolding rnd_def by (intro mult_right_mono) simp_all
  then show ?thesis
    by (simp only: quantum_53)
qed

lemma rnd_lower:
  assumes "0 < x" and "- 1022 < binade x"
  shows "pow2 (binade x) \<le> rnd x"
proof -
  have "pow2 (binade x) \<le> x"
    using binade_lower [of x] assms by simp
  then have "2 ^ 52 * quantum x \<le> x"
    by (simp only: quantum_52)
  then have "real_of_int (2 ^ 52) \<le> x / quantum x"
    by (simp add: field_simps)
  then have "2 ^ 52 \<le> round_even (x / quantum x)"
    by (rule round_even_ge)
  then have "real_of_int (2 ^ 52) \<le> real_of_int (round_even (x / quantum x))"
    by (simp only: of_int_le_iff)
  then have "2 ^ 52 \<le> real_of_int (round_even (x / quantum x))"
    by simp
  then have "2 ^ 52 * quantum x \<le> rnd x"
    unfolding rnd_def by (intro mult_right_mono) simp_all
  then show ?thesis
    by (simp only: quantum_52)
qed

lemma rnd_mono_pos:
  assumes "0 < x" and "x \<le> y"
  shows "rnd x \<le> rnd y"
proof (cases "binade x = binade y")
  case True
  then have q: "quantum x = quantum y"
    by (simp add: quantum_def)
  have "x / quantum y \<le> y / quantum y"
    using assms(2) by (simp add: divide_right_mono)
  then have "round_even (x / quantum y) \<le> round_even (y / quantum y)"
    by (rule round_even_mono)
  then have "real_of_int (round_even (x / quantum y)) \<le> real_of_int (round_even (y / quantum y))"
    by linarith
  then show ?thesis
    unfolding rnd_def q by (intro mult_right_mono) simp_all
next
  case False
  then have lt: "binade x + 1 \<le> binade y"
    using binade_mono [OF assms] by linarith
  have "rnd x \<le> pow2 (binade x + 1)"
    using assms(1) by (rule rnd_upper)
  also have "\<dots> \<le> pow2 (binade y)"
    using lt by (rule pow2_mono)
  also have "\<dots> \<le> rnd y"
    using assms lt binade_ge [of x] by (intro rnd_lower) linarith+
  finally show ?thesis .
qed

lemma rnd_mono:
  assumes "x \<le> y"
  shows "rnd x \<le> rnd y"
proof -
  consider "0 < x" | "y < 0" | "x \<le> 0" "0 \<le> y"
    by linarith
  then show ?thesis
  proof cases
    case 1
    then show ?thesis
      using assms by (rule rnd_mono_pos)
  next
    case 2
    then have "rnd (- y) \<le> rnd (- x)"
      using assms by (intro rnd_mono_pos) simp_all
    then show ?thesis
      by (simp add: rnd_minus)
  next
    case 3
    have "0 \<le> rnd (- x)"
      using 3(1) by (intro rnd_nonneg) simp
    then have "rnd x \<le> 0"
      by (simp add: rnd_minus)
    also have "0 \<le> rnd y"
      using 3(2) by (rule rnd_nonneg)
    finally show ?thesis .
  qed
qed


subsection \<open>Monotonicity and symmetry\<close>

lemma fl_zero [simp]: "fl 0 = Num 0"
  by (simp add: fl_def)

lemma fl_minus: "fl (- x) = js_neg (fl x)"
  by (simp add: fl_def rnd_minus)

lemma rnd_nonpos: "x \<le> 0 \<Longrightarrow> rnd x \<le> 0"
  using rnd_nonneg [of "- x"] by (simp add: rnd_minus)

lemma fl_mono:
  assumes "x \<le> y"
  shows "js_le (fl x) (fl y)"
proof -
  have r: "rnd x \<le> rnd y"
    using assms by (rule rnd_mono)
  have sx: "0 \<le> x \<Longrightarrow> 0 \<le> rnd x" "x \<le> 0 \<Longrightarrow> rnd x \<le> 0"
    and sy: "0 \<le> y \<Longrightarrow> 0 \<le> rnd y" "y \<le> 0 \<Longrightarrow> rnd y \<le> 0"
    by (simp_all add: rnd_nonneg rnd_nonpos)
  show ?thesis
    using assms r sx sy by (auto simp: fl_def abs_if split: if_splits)
qed

lemma fl_between:
  assumes "a \<le> x" and "x \<le> b" and "fl a = Num a'" and "fl b = Num b'"
  shows "\<exists>y. fl x = Num y \<and> a' \<le> y \<and> y \<le> b'"
proof -
  have "js_le (Num a') (fl x)" and "js_le (fl x) (Num b')"
    using fl_mono [OF assms(1)] fl_mono [OF assms(2)] assms(3,4) by simp_all
  then show ?thesis
    by (cases "fl x") simp_all
qed

subsection \<open>Computing a rounding\<close>

text \<open>
  For \<open>x\<close> with \<open>2^e \<le> |x| < 2^(e+1)\<close> in the normal range, the rounding is the
  integer nearest to \<open>x / 2^(e-52)\<close>, ties to even, times \<open>2^(e-52)\<close>.
\<close>

lemma fl_eval:
  assumes "pow2 e \<le> \<bar>x\<bar>" and "\<bar>x\<bar> < pow2 (e + 1)" and "- 1022 \<le> e" and "e \<le> 1022"
    and "round_even (x / pow2 (e - 52)) = m"
  shows "fl x = Num (real_of_int m * pow2 (e - 52))"
proof -
  have b: "binade x = e"
    using assms(1,2,3) by (rule binade_eq)
  have x: "x \<noteq> 0"
  proof
    assume "x = 0"
    then have "pow2 e \<le> 0"
      using assms(1) by simp
    then show False
      using pow2_pos [of e] by linarith
  qed
  have r: "rnd x = real_of_int m * pow2 (e - 52)"
    by (simp add: rnd_def quantum_def b assms(5))
  have "\<bar>rnd x\<bar> \<le> pow2 (e + 1)"
  proof (cases "0 < x")
    case True
    then show ?thesis
      using rnd_upper [of x] rnd_nonneg [of x] by (simp add: b)
  next
    case False
    then have "0 < - x"
      using x by simp
    then show ?thesis
      using rnd_upper [of "- x"] rnd_nonneg [of "- x"] by (simp add: b rnd_minus)
  qed
  also have "\<dots> \<le> pow2 1023"
    using assms(4) by (intro pow2_mono) simp
  also have "\<dots> < 2 ^ 1024"
    by (simp add: pow2_def)
  finally have "\<not> 2 ^ 1024 \<le> \<bar>rnd x\<bar>"
    by simp
  then show ?thesis
    using x by (simp add: fl_def r [symmetric])
qed


subsection \<open>The binary64 values are fixed\<close>

lemma rnd_fixed:
  assumes "y = real_of_int m * quantum y"
  shows "rnd y = y"
proof -
  have q: "quantum y \<noteq> 0"
    by (metis less_irrefl quantum_pos)
  have "y / quantum y = real_of_int m"
    by (metis assms q nonzero_mult_div_cancel_right)
  then show ?thesis
    using assms by (simp add: rnd_def)
qed

lemma rnd_idem_pos:
  assumes "0 < x"
  shows "rnd (rnd x) = rnd x"
proof -
  define m where "m = round_even (x / quantum x)"
  define y where "y = rnd x"
  have y: "y = real_of_int m * quantum x"
    by (simp add: y_def m_def rnd_def)
  have m0: "0 \<le> m"
    unfolding m_def using assms by (intro round_even_ge) simp
  have up: "y \<le> 2 ^ 53 * quantum x"
    using rnd_upper [OF assms] by (simp only: quantum_53 y_def)
  consider "m = 0" | "y = 2 ^ 53 * quantum x" | "0 < m" "y < 2 ^ 53 * quantum x" "2 ^ 52 * quantum x \<le> y"
    | "0 < m" "y < 2 ^ 52 * quantum x"
    using m0 up by fastforce
  then have "rnd y = y"
  proof cases
    case 1
    then show ?thesis
      by (simp add: y)
  next
    case 2
    then have p: "y = pow2 (binade x + 1)"
      by (simp only: quantum_53)
    have "pow2 (binade x + 1) < pow2 (binade x + 1 + 1)"
      using pow2_add [of "binade x + 1" 1] pow2_pos [of "binade x + 1"] by (simp add: pow2_def)
    then have "binade y = binade x + 1"
      using binade_ge [of x] by (intro binade_eq) (simp_all add: p)
    then have "quantum y = 2 * quantum x"
      using pow2_add [of "binade x - 52" 1] by (simp add: quantum_def pow2_def algebra_simps)
    then have "y = real_of_int (2 ^ 52) * quantum y"
      using 2 by simp
    then show ?thesis
      by (rule rnd_fixed)
  next
    case 3
    have "binade y = binade x"
    proof (rule binade_eq)
      show "pow2 (binade x) \<le> \<bar>y\<bar>"
        using 3(3) by (simp only: quantum_52)
      show "\<bar>y\<bar> < pow2 (binade x + 1)"
        using 3(2,3) quantum_pos [of x] by (simp only: quantum_53 [symmetric]) simp
      show "- 1022 \<le> binade x"
        by (rule binade_ge)
    qed
    then have "quantum y = quantum x"
      by (simp add: quantum_def)
    then show ?thesis
      using y by (intro rnd_fixed [of y m]) simp
  next
    case 4
    have b: "binade x = - 1022"
    proof (rule ccontr)
      assume "binade x \<noteq> - 1022"
      then have "- 1022 < binade x"
        using binade_ge [of x] by linarith
      then have "pow2 (binade x) \<le> y"
        unfolding y_def using assms by (intro rnd_lower)
      then show False
        using 4(2) by (simp only: quantum_52 [symmetric])
    qed
    have pos: "0 < y"
      using 4(1) quantum_pos [of x] by (simp add: y)
    have "y < pow2 (- 1022)"
      using 4(2) by (simp only: quantum_52 b)
    then have "binade y = - 1022"
      using pos by (intro binade_small) simp_all
    then have "quantum y = quantum x"
      by (simp add: quantum_def b)
    then show ?thesis
      using y by (intro rnd_fixed [of y m]) simp
  qed
  then show ?thesis
    by (simp add: y_def)
qed

lemma rnd_idem: "rnd (rnd x) = rnd x"
proof -
  consider "0 < x" | "x = 0" | "0 < - x"
    by linarith
  then show ?thesis
  proof cases
    case 1
    then show ?thesis by (rule rnd_idem_pos)
  next
    case 2
    then show ?thesis by simp
  next
    case 3
    then have "rnd (rnd (- x)) = rnd (- x)"
      by (rule rnd_idem_pos)
    then show ?thesis
      by (simp add: rnd_minus)
  qed
qed

lemma fl_is_double:
  assumes "fl x = Num y"
  shows "is_double y"
proof (cases "x = 0")
  case True
  then show ?thesis
    using assms by (auto simp: is_double_def)
next
  case False
  then have y: "y = rnd x" and s: "\<not> 2 ^ 1024 \<le> \<bar>rnd x\<bar>"
    using assms by (auto simp: fl_def split: if_splits)
  show ?thesis
    unfolding is_double_def using s by (simp add: fl_def y rnd_idem)
qed

text \<open>Integers below \<open>2^53\<close> in size are binary64 values.\<close>

lemma fl_of_int_pos:
  assumes "0 < n" and "n < 2 ^ 53"
  shows "fl (real_of_int n) = Num (real_of_int n)"
proof -
  define b where "b = binade (real_of_int n)"
  have n1: "1 \<le> real_of_int n"
    using assms(1) by simp
  have up: "real_of_int n < pow2 (b + 1)"
    using binade_upper [of "real_of_int n"] assms(1) by (simp add: b_def)
  have b0: "0 \<le> b"
  proof (rule ccontr)
    assume "\<not> 0 \<le> b"
    then have "pow2 (b + 1) \<le> pow2 0"
      by (intro pow2_mono) simp
    then show False
      using up n1 by (simp add: pow2_def)
  qed
  have b52: "b \<le> 52"
  proof (rule ccontr)
    assume "\<not> b \<le> 52"
    then have "53 \<le> b"
      by simp
    then have "pow2 53 \<le> pow2 b"
      by (rule pow2_mono)
    moreover have "pow2 b \<le> \<bar>real_of_int n\<bar>"
      unfolding b_def using assms(1) \<open>53 \<le> b\<close>
      by (intro binade_lower) (simp_all add: b_def)
    ultimately have "2 ^ 53 \<le> real_of_int n"
      using assms(1) by (simp add: pow2_53)
    then have "real_of_int (2 ^ 53) \<le> real_of_int n"
      by simp
    then have "2 ^ 53 \<le> n"
      by (simp only: of_int_le_iff)
    then show False
      using assms(2) by simp
  qed
  have q: "quantum (real_of_int n) = 1 / 2 ^ nat (52 - b)"
  proof (cases "b = 52")
    case True
    then show ?thesis
      by (simp add: quantum_def b_def [symmetric] pow2_def)
  next
    case False
    then have "b - 52 < 0"
      using b52 by simp
    then show ?thesis
      by (simp add: quantum_def b_def [symmetric] pow2_def)
  qed
  have "real_of_int n = real_of_int (n * 2 ^ nat (52 - b)) * quantum (real_of_int n)"
    by (simp add: q)
  then have r: "rnd (real_of_int n) = real_of_int n"
    by (rule rnd_fixed)
  have "real_of_int n < real_of_int (2 ^ 53)"
    using assms(2) by (simp only: of_int_less_iff)
  also have "\<dots> < 2 ^ 1024"
    by simp
  finally have "\<not> 2 ^ 1024 \<le> \<bar>real_of_int n\<bar>"
    using assms(1) by simp
  then show ?thesis
    using assms(1) by (simp add: fl_def r)
qed

lemma fl_of_int:
  assumes "\<bar>n\<bar> < 2 ^ 53"
  shows "fl (real_of_int n) = Num (real_of_int n)"
proof -
  consider "0 < n" | "n = 0" | "0 < - n"
    by linarith
  then show ?thesis
  proof cases
    case 1
    then show ?thesis
      using assms by (intro fl_of_int_pos) simp_all
  next
    case 2
    then show ?thesis by simp
  next
    case 3
    then have "fl (real_of_int (- n)) = Num (real_of_int (- n))"
      using assms by (intro fl_of_int_pos) simp_all
    then have "js_neg (fl (real_of_int n)) = Num (- real_of_int n)"
      by (simp add: fl_minus)
    then show ?thesis
      by (cases "fl (real_of_int n)") simp_all
  qed
qed

lemma fl_of_nat: "n < 2 ^ 53 \<Longrightarrow> fl (real n) = Num (real n)"
  using fl_of_int [of "int n"] by (simp add: of_nat_less_iff [of n "2 ^ 53", where ?'a = int, symmetric] del: of_nat_less_iff)

lemma fl_numeral: "numeral k < (2 :: int) ^ 53 \<Longrightarrow> fl (numeral k) = Num (numeral k)"
  using fl_of_int [of "numeral k"] by simp

lemma fl_neg_numeral: "numeral k < (2 :: int) ^ 53 \<Longrightarrow> fl (- numeral k) = Num (- numeral k)"
  using fl_of_int [of "- numeral k"] by simp

lemma fl_one [simp]: "fl 1 = Num 1"
  using fl_of_int [of 1] by simp

lemma is_double_zero [simp]: "is_double 0"
  by (simp add: is_double_def)

lemma lit_is_double: "lit x = Num y \<Longrightarrow> is_double y"
  unfolding lit_def by (rule fl_is_double)

subsection \<open>The order of the numbers\<close>

lemma fl_not_NaN [simp]: "fl x \<noteq> NaN"
  by (simp add: fl_def)

lemma fl_not_isNaN [simp]: "\<not> isNaN (fl x)"
  by (cases "fl x") simp_all

lemma js_lt_le_trans: "js_lt a b \<Longrightarrow> js_le b c \<Longrightarrow> js_lt a c"
  by (cases a; cases b; cases c) simp_all

lemma js_le_trans: "js_le a b \<Longrightarrow> js_le b c \<Longrightarrow> js_le a c"
  by (cases a; cases b; cases c) simp_all

lemma js_lt_asym: "js_lt a b \<Longrightarrow> \<not> js_lt b a"
  by (cases a; cases b) simp_all

lemma js_le_max: "\<not> isNaN a \<Longrightarrow> \<not> isNaN b \<Longrightarrow> js_le a (js_max a b)"
  by (cases a; cases b) (simp_all add: js_max_def)

lemma js_mul_mono_nonneg:
  assumes "0 \<le> x" and "c \<le> d"
  shows "js_le (js_mul (Num x) (Num c)) (js_mul (Num x) (Num d))"
  using assms by (simp add: fl_mono mult_left_mono)

section \<open>Properties of the optimizer\<close>

lemma foldl_optimize_step:
  "foldl (optimize_step g) (t, bs) ps =
     (foldl js_add t (map (\<lambda>p. expected_profit (bid_of g p)) ps), bs @ map (bid_of g) ps)"
  by (induction ps arbitrary: t bs) (simp_all add: optimize_step_def Let_def)

lemma runOptimizationAlgorithm_Some:
  "runOptimizationAlgorithm ps \<lparr> cost_params = Some cp \<rparr> =
     Inr \<lparr> success = True,
           total_expected_profit =
             foldl js_add (Num 0) (map (\<lambda>p. expected_profit (bid_of (generationCost cp) p)) ps),
           optimal_capacity = average bid_capacity (map (bid_of (generationCost cp)) ps),
           strategy =
             (if js_gt (foldl js_add (Num 0)
                          (map (\<lambda>p. expected_profit (bid_of (generationCost cp) p)) ps)) (Num 0)
              then ''AGGRESSIVE'' else ''CONSERVATIVE''),
           risk_level = riskLevel_of (average bid_price (map (bid_of (generationCost cp)) ps))
                                     (average predicted_price ps),
           bidding_schedule = map (bid_of (generationCost cp)) ps,
           cost_parameters = cp \<rparr>"
  by (simp add: runOptimizationAlgorithm_def foldl_optimize_step)

lemma optimize_config_eq:
  "cost_params (config :: optimize_config) = Some cp \<Longrightarrow> config = \<lparr> cost_params = Some cp \<rparr>"
  by (cases config) simp

lemma runOptimizationAlgorithm_schedule:
  assumes "cost_params (config :: optimize_config) = Some cp"
  shows "\<exists>result. runOptimizationAlgorithm ps config = Inr result
           \<and> bidding_schedule result = map (bid_of (generationCost cp)) ps
           \<and> total_expected_profit result
               = foldl js_add (Num 0) (map (\<lambda>p. expected_profit (bid_of (generationCost cp) p)) ps)
           \<and> strategy result
               = (if js_gt (total_expected_profit result) (Num 0)
                  then ''AGGRESSIVE'' else ''CONSERVATIVE'')"
  using optimize_config_eq [OF assms] by (simp add: runOptimizationAlgorithm_Some)

lemma bid_of_rule:
  "bid_capacity (bid_of g pred) =
     (if js_gt (predicted_price pred) (js_mul g (lit 1.5)) then Num 150
      else if js_lt (predicted_price pred) (js_mul g (lit 1.2)) then Num 50 else Num 100)"
  "bid_price (bid_of g pred) =
     (if js_gt (predicted_price pred) (js_mul g (lit 1.5))
        then js_mul (predicted_price pred) (lit 0.95)
      else if js_lt (predicted_price pred) (js_mul g (lit 1.2))
        then js_max (js_mul g (lit 1.1)) (js_mul (predicted_price pred) (lit 0.9))
      else predicted_price pred)"
  "expected_profit (bid_of g pred)
     = js_mul (js_sub (bid_price (bid_of g pred)) g) (bid_capacity (bid_of g pred))"
  "time_period (bid_of g pred) = p_timestamp pred"
  "b_predicted_price (bid_of g pred) = predicted_price pred"
  by (simp_all add: bid_of_def Let_def)

subsection \<open>Numbers of the examples\<close>

text \<open>
  The decimal literals of the optimizer as binary64 values, and the products,
  differences and sums the examples below need, each rounded as the program rounds it.
\<close>


lemma lit_1_5: "lit (3 / 2) = Num (3 / 2)"
  using fl_eval [of "0" "3 / 2" "6755399441055744"]
  by (simp add: lit_def pow2_def round_even_def Let_def)

lemma lit_0_95: "lit (19 / 20) = Num (4278419646001971 / 4503599627370496)"
  using fl_eval [of "- 1" "19 / 20" "8556839292003942"]
  by (simp add: lit_def pow2_def round_even_def Let_def)

lemma lit_1_2: "lit (6 / 5) = Num (5404319552844595 / 4503599627370496)"
  using fl_eval [of "0" "6 / 5" "5404319552844595"]
  by (simp add: lit_def pow2_def round_even_def Let_def)

lemma lit_1_1: "lit (11 / 10) = Num (2476979795053773 / 2251799813685248)"
  using fl_eval [of "0" "11 / 10" "4953959590107546"]
  by (simp add: lit_def pow2_def round_even_def Let_def)

lemma lit_0_9: "lit (9 / 10) = Num (8106479329266893 / 9007199254740992)"
  using fl_eval [of "- 1" "9 / 10" "8106479329266893"]
  by (simp add: lit_def pow2_def round_even_def Let_def)

lemma lit_470_39: "lit (47039 / 100) = Num (4137594196716421 / 8796093022208)"
  using fl_eval [of "8" "47039 / 100" "8275188393432842"]
  by (simp add: lit_def pow2_def round_even_def Let_def)

lemma fl_200_095: "fl (106960491150049275 / 562949953421312) = Num 190"
  using fl_eval [of "7" "106960491150049275 / 562949953421312" "6685030696878080"]
  by (simp add: pow2_def round_even_def Let_def)

lemma fl_100_12: "fl (135107988821114875 / 1125899906842624) = Num 120"
  using fl_eval [of "6" "135107988821114875 / 1125899906842624" "8444249301319680"]
  by (simp add: pow2_def round_even_def Let_def)

lemma fl_100_11: "fl (61924494876344325 / 562949953421312) = Num (7740561859543041 / 70368744177664)"
  using fl_eval [of "6" "61924494876344325 / 562949953421312" "7740561859543041"]
  by (simp add: pow2_def round_even_def Let_def)

lemma fl_100_09: "fl (202661983231672325 / 2251799813685248) = Num 90"
  using fl_eval [of "6" "202661983231672325 / 2251799813685248" "6333186975989760"]
  by (simp add: pow2_def round_even_def Let_def)

lemma fl_50_09: "fl (202661983231672325 / 4503599627370496) = Num 45"
  using fl_eval [of "5" "202661983231672325 / 4503599627370496" "6333186975989760"]
  by (simp add: pow2_def round_even_def Let_def)

lemma fl_110_minus_100: "fl (703687441776641 / 70368744177664) = Num (703687441776641 / 70368744177664)"
  using fl_eval [of "3" "703687441776641 / 70368744177664" "5629499534213128"]
  by (simp add: pow2_def round_even_def Let_def)

lemma fl_10_times_50: "fl (17592186044416025 / 35184372088832) = Num (2199023255552003 / 4398046511104)"
  using fl_eval [of "8" "17592186044416025 / 35184372088832" "8796093022208012"]
  by (simp add: pow2_def round_even_def Let_def)

lemma fl_13500_plus_500: "fl (61572651155456003 / 4398046511104) = Num 14000"
  using fl_eval [of "13" "61572651155456003 / 4398046511104" "7696581394432000"]
  by (simp add: pow2_def round_even_def Let_def)

lemma fl_G_15: "fl (12412782590149263 / 17592186044416) = Num (775798911884329 / 1099511627776)"
  using fl_eval [of "9" "12412782590149263 / 17592186044416" "6206391295074632"]
  by (simp add: pow2_def round_even_def Let_def)

lemma fl_G_12: "fl (22360881219050879580339097594495 / 39614081257132168796771975168) = Num (4965113036059705 / 8796093022208)"
  using fl_eval [of "9" "22360881219050879580339097594495 / 39614081257132168796771975168" "4965113036059705"]
  by (simp add: pow2_def round_even_def Let_def)

lemma fl_G_11: "fl (10248737225398321014453727106433 / 19807040628566084398385987584) = Num (4551353616388063 / 8796093022208)"
  using fl_eval [of "9" "10248737225398321014453727106433 / 19807040628566084398385987584" "4551353616388063"]
  by (simp add: pow2_def round_even_def Let_def)

lemma fl_A_minus_G: "fl (206879709835821 / 4398046511104) = Num (206879709835821 / 4398046511104)"
  using fl_eval [of "5" "206879709835821 / 4398046511104" "6620150714746272"]
  by (simp add: pow2_def round_even_def Let_def)

lemma fl_d_times_50: "fl (5171992745895525 / 2199023255552) = Num (5171992745895525 / 2199023255552)"
  using fl_eval [of "11" "5171992745895525 / 2199023255552" "5171992745895525"]
  by (simp add: pow2_def round_even_def Let_def)

lemma fl_5_G: "fl (20687970983582105 / 8796093022208) = Num (2585996372947763 / 1099511627776)"
  using fl_eval [of "11" "20687970983582105 / 8796093022208" "5171992745895526"]
  by (simp add: pow2_def round_even_def Let_def)

lemma lit_99_9: "lit (999 / 10) = Num (3514918771674317 / 35184372088832)"
  using fl_eval [of "6" "999 / 10" "7029837543348634"]
  by (simp add: lit_def pow2_def round_even_def Let_def)

lemma lit_149_85: "lit (7492500000000001 / 50000000000000) = Num (1318094539377869 / 8796093022208)"
  using fl_eval [of "7" "7492500000000001 / 50000000000000" "5272378157511476"]
  by (simp add: lit_def pow2_def round_even_def Let_def)

lemma fl_g99_15: "fl (10544756315022951 / 70368744177664) = Num (1318094539377869 / 8796093022208)"
  using fl_eval [of "7" "10544756315022951 / 70368744177664" "5272378157511476"]
  by (simp add: pow2_def round_even_def Let_def)

lemma fl_g99_12: "fl (18995744244420017959308253766615 / 158456325028528675187087900672) = Num (1054475631502295 / 8796093022208)"
  using fl_eval [of "6" "18995744244420017959308253766615 / 158456325028528675187087900672" "8435805052018360"]
  by (simp add: pow2_def round_even_def Let_def)

lemma fl_P: "fl (2199023255552003 / 4398046511104) = Num (2199023255552003 / 4398046511104)"
  using fl_eval [of "8" "2199023255552003 / 4398046511104" "8796093022208012"]
  by (simp add: pow2_def round_even_def Let_def)

lemma fl_P_plus_P: "fl (2199023255552003 / 2199023255552) = Num (2199023255552003 / 2199023255552)"
  using fl_eval [of "9" "2199023255552003 / 2199023255552" "8796093022208012"]
  by (simp add: pow2_def round_even_def Let_def)

lemma fl_2P_plus_13500: "fl (31885837205504003 / 2199023255552) = Num (7971459301376001 / 549755813888)"
  using fl_eval [of "13" "31885837205504003 / 2199023255552" "7971459301376001"]
  by (simp add: pow2_def round_even_def Let_def)

lemma fl_P_plus_14000: "fl (63771674411008003 / 4398046511104) = Num 14500"
  using fl_eval [of "13" "63771674411008003 / 4398046511104" "7971459301376000"]
  by (simp add: pow2_def round_even_def Let_def)

subsection \<open>The decision rule\<close>

text \<open>
  Claim C2, as the code has it. For every forecast point, the decision at the same
  position of the bidding schedule follows the per-period rule, in which every product
  is rounded to a binary64 value before it is compared or returned and \<open>1.5\<close>,
  \<open>1.2\<close>, \<open>1.1\<close>, \<open>0.95\<close>, \<open>0.9\<close> are the binary64 values nearest to these
  decimals: above the generation cost times \<open>1.5\<close> the capacity is \<open>150\<close> and the
  bid price the predicted price times \<open>0.95\<close>; otherwise, below the generation cost
  times \<open>1.2\<close> the capacity is \<open>50\<close> and the bid price the larger of the generation
  cost times \<open>1.1\<close> and the predicted price times \<open>0.9\<close>; otherwise the capacity is
  \<open>100\<close> and the bid price the predicted price.
\<close>

theorem optimizer_decision_rule:
  assumes "cost_params config = Some cp" and "i < length forecast"
  shows "\<exists>result. runOptimizationAlgorithm forecast config = Inr result
           \<and> length (bidding_schedule result) = length forecast
           \<and> (let p = predicted_price (forecast ! i);
                   g = generationCost cp;
                   b = bidding_schedule result ! i
               in if js_gt p (js_mul g (lit 1.5))
                    then bid_capacity b = Num 150 \<and> bid_price b = js_mul p (lit 0.95)
                  else if js_lt p (js_mul g (lit 1.2))
                    then bid_capacity b = Num 50
                       \<and> bid_price b = js_max (js_mul g (lit 1.1)) (js_mul p (lit 0.9))
                  else bid_capacity b = Num 100 \<and> bid_price b = p)"
proof -
  obtain result where r: "runOptimizationAlgorithm forecast config = Inr result"
    and s: "bidding_schedule result = map (bid_of (generationCost cp)) forecast"
    using runOptimizationAlgorithm_schedule [OF assms(1)] by blast
  have "bidding_schedule result ! i = bid_of (generationCost cp) (forecast ! i)"
    using s assms(2) by simp
  then show ?thesis
    using r s by (simp add: Let_def bid_of_rule)
qed

theorem optimizer_decision_rule_witness:
  "cost_params \<lparr> cost_params = Some \<lparr> generationCost = Num 100, upwardCost = Num 20, downwardCost = Num 10 \<rparr> \<rparr>
     = Some \<lparr> generationCost = Num 100, upwardCost = Num 20, downwardCost = Num 10 \<rparr>
   \<and> (1::nat) < length
        [\<lparr> p_timestamp = 0, predicted_price = Num 200, confidence_lower = Num 190,
            confidence_upper = Num 210, p_confidence_level = lit 0.95 \<rparr>,
         \<lparr> p_timestamp = 900000, predicted_price = Num 100, confidence_lower = Num 90,
            confidence_upper = Num 110, p_confidence_level = lit 0.95 \<rparr>,
         \<lparr> p_timestamp = 1800000, predicted_price = Num 130, confidence_lower = Num 120,
            confidence_upper = Num 140, p_confidence_level = lit 0.95 \<rparr>]
   \<and> (\<exists>result.
        runOptimizationAlgorithm
          [\<lparr> p_timestamp = 0, predicted_price = Num 200, confidence_lower = Num 190,
            confidence_upper = Num 210, p_confidence_level = lit 0.95 \<rparr>,
           \<lparr> p_timestamp = 900000, predicted_price = Num 100, confidence_lower = Num 90,
            confidence_upper = Num 110, p_confidence_level = lit 0.95 \<rparr>,
           \<lparr> p_timestamp = 1800000, predicted_price = Num 130, confidence_lower = Num 120,
            confidence_upper = Num 140, p_confidence_level = lit 0.95 \<rparr>]
          \<lparr> cost_params = Some \<lparr> generationCost = Num 100, upwardCost = Num 20, downwardCost = Num 10 \<rparr> \<rparr>
          = Inr result
        \<and> bid_capacity (bidding_schedule result ! 1) = Num 50
        \<and> bid_price (bidding_schedule result ! 1) = Num (7740561859543041 / 70368744177664))"
  using optimizer_decision_rule
    [of "\<lparr> cost_params = Some \<lparr> generationCost = Num 100, upwardCost = Num 20, downwardCost = Num 10 \<rparr> \<rparr>"
        "\<lparr> generationCost = Num 100, upwardCost = Num 20, downwardCost = Num 10 \<rparr>"
        1
        "[\<lparr> p_timestamp = 0, predicted_price = Num 200, confidence_lower = Num 190,
            confidence_upper = Num 210, p_confidence_level = lit 0.95 \<rparr>,
          \<lparr> p_timestamp = 900000, predicted_price = Num 100, confidence_lower = Num 90,
            confidence_upper = Num 110, p_confidence_level = lit 0.95 \<rparr>,
          \<lparr> p_timestamp = 1800000, predicted_price = Num 130, confidence_lower = Num 120,
            confidence_upper = Num 140, p_confidence_level = lit 0.95 \<rparr>]"]
  by (auto simp: Let_def js_gt_def js_max_def lit_1_5 lit_0_95 lit_1_2 lit_1_1 lit_0_9 fl_numeral fl_200_095 fl_100_12 fl_100_11 fl_100_09 fl_50_09 fl_110_minus_100 fl_10_times_50 fl_13500_plus_500)

text \<open>
  Claim C2 as stated, with exact products, fails. At the generation cost \<open>99.9\<close> and
  the predicted price \<open>149.85000000000002\<close> (the binary64 values nearest to these
  decimals) the predicted price is greater than the generation cost times \<open>1.5\<close>,
  but the program's product is rounded up to the predicted price itself, so the test
  fails and the decision has capacity \<open>100\<close> and the predicted price as its bid
  price. At the generation cost \<open>100\<close> and the predicted price \<open>100\<close> the bid price
  is 110.00000000000001, not \<open>max (100 * 1.1) (100 * 0.9) = 110\<close>.
\<close>

theorem optimizer_decision_rule_counterexample:
  "lit 99.9 = Num (3514918771674317 / 35184372088832)
   \<and> lit 149.85000000000002 = Num (1318094539377869 / 8796093022208)
   \<and> ((3514918771674317 / 35184372088832) :: real) * (15 / 10) < (1318094539377869 / 8796093022208)
   \<and> js_mul (lit 99.9) (lit 1.5) = lit 149.85000000000002
   \<and> map_sum id (map bid_capacity \<circ> bidding_schedule)
        (runOptimizationAlgorithm
           [\<lparr> p_timestamp = 0, predicted_price = lit 149.85000000000002, confidence_lower = Num 0,
            confidence_upper = Num 0, p_confidence_level = lit 0.95 \<rparr>]
           \<lparr> cost_params = Some \<lparr> generationCost = lit 99.9, upwardCost = Num 20, downwardCost = Num 10 \<rparr> \<rparr>)
       = Inr [Num 100]
   \<and> map_sum id (map bid_price \<circ> bidding_schedule)
        (runOptimizationAlgorithm
           [\<lparr> p_timestamp = 0, predicted_price = lit 149.85000000000002, confidence_lower = Num 0,
            confidence_upper = Num 0, p_confidence_level = lit 0.95 \<rparr>]
           \<lparr> cost_params = Some \<lparr> generationCost = lit 99.9, upwardCost = Num 20, downwardCost = Num 10 \<rparr> \<rparr>)
       = Inr [lit 149.85000000000002]
   \<and> map_sum id (map bid_price \<circ> bidding_schedule)
        (runOptimizationAlgorithm
           [\<lparr> p_timestamp = 0, predicted_price = Num 100, confidence_lower = Num 90,
            confidence_upper = Num 110, p_confidence_level = lit 0.95 \<rparr>]
           \<lparr> cost_params = Some \<lparr> generationCost = Num 100, upwardCost = Num 20, downwardCost = Num 10 \<rparr> \<rparr>)
       = Inr [Num (7740561859543041 / 70368744177664)]
   \<and> ((7740561859543041 / 70368744177664) :: real) \<noteq> max (100 * (11 / 10)) (100 * (9 / 10))"
  by (simp add: runOptimizationAlgorithm_Some bid_of_rule js_gt_def js_max_def
        lit_1_5 lit_1_2 lit_1_1 lit_0_9 lit_99_9 lit_149_85 fl_g99_15 fl_g99_12
        fl_numeral fl_100_12 fl_100_11 fl_100_09)

subsection \<open>Profits and their total\<close>

text \<open>
  Claim C7, as the code has it. Every decision's expected profit is the rounded product
  of the rounded difference (bid price - generation cost) and the bid capacity; the
  returned total is the sum of the decisions' expected profits added up from \<open>0\<close> in
  the order of the schedule, rounded after every addition; and the strategy is
  \<open>AGGRESSIVE\<close> exactly when that total is greater than \<open>0\<close>. This holds for the
  empty forecast as well.
\<close>

theorem optimizer_profit_totals:
  assumes "cost_params config = Some cp"
  shows "\<exists>result. runOptimizationAlgorithm forecast config = Inr result
           \<and> (\<forall>b \<in> set (bidding_schedule result).
                 expected_profit b
                   = js_mul (js_sub (bid_price b) (generationCost cp)) (bid_capacity b))
           \<and> total_expected_profit result
               = foldl js_add (Num 0) (map expected_profit (bidding_schedule result))
           \<and> strategy result
               = (if js_gt (total_expected_profit result) (Num 0)
                  then ''AGGRESSIVE'' else ''CONSERVATIVE'')"
proof -
  obtain result where r: "runOptimizationAlgorithm forecast config = Inr result"
    and s: "bidding_schedule result = map (bid_of (generationCost cp)) forecast"
    and t: "total_expected_profit result
              = foldl js_add (Num 0)
                  (map (\<lambda>p. expected_profit (bid_of (generationCost cp) p)) forecast)"
    and g: "strategy result
              = (if js_gt (total_expected_profit result) (Num 0)
                 then ''AGGRESSIVE'' else ''CONSERVATIVE'')"
    using runOptimizationAlgorithm_schedule [OF assms] by blast
  have "\<forall>b \<in> set (bidding_schedule result).
          expected_profit b
            = js_mul (js_sub (bid_price b) (generationCost cp)) (bid_capacity b)"
    using s by (auto simp: bid_of_rule(3))
  moreover have "total_expected_profit result
                   = foldl js_add (Num 0) (map expected_profit (bidding_schedule result))"
    using s t by (simp add: comp_def)
  ultimately show ?thesis
    using r g by blast
qed

theorem optimizer_profit_totals_witness:
  "cost_params \<lparr> cost_params = Some \<lparr> generationCost = Num 100, upwardCost = Num 20, downwardCost = Num 10 \<rparr> \<rparr>
     = Some \<lparr> generationCost = Num 100, upwardCost = Num 20, downwardCost = Num 10 \<rparr>
   \<and> (\<exists>result.
        runOptimizationAlgorithm
          [\<lparr> p_timestamp = 0, predicted_price = Num 200, confidence_lower = Num 190,
            confidence_upper = Num 210, p_confidence_level = lit 0.95 \<rparr>,
           \<lparr> p_timestamp = 900000, predicted_price = Num 100, confidence_lower = Num 90,
            confidence_upper = Num 110, p_confidence_level = lit 0.95 \<rparr>]
          \<lparr> cost_params = Some \<lparr> generationCost = Num 100, upwardCost = Num 20, downwardCost = Num 10 \<rparr> \<rparr>
          = Inr result
        \<and> map expected_profit (bidding_schedule result)
            = [Num 13500, Num (2199023255552003 / 4398046511104)]
        \<and> total_expected_profit result = Num 14000
        \<and> strategy result = ''AGGRESSIVE'')"
  using optimizer_profit_totals
    [of "\<lparr> cost_params = Some \<lparr> generationCost = Num 100, upwardCost = Num 20, downwardCost = Num 10 \<rparr> \<rparr>"
        "\<lparr> generationCost = Num 100, upwardCost = Num 20, downwardCost = Num 10 \<rparr>"
        "[\<lparr> p_timestamp = 0, predicted_price = Num 200, confidence_lower = Num 190,
            confidence_upper = Num 210, p_confidence_level = lit 0.95 \<rparr>,
          \<lparr> p_timestamp = 900000, predicted_price = Num 100, confidence_lower = Num 90,
            confidence_upper = Num 110, p_confidence_level = lit 0.95 \<rparr>]"]
  by (auto simp: runOptimizationAlgorithm_Some bid_of_rule js_gt_def js_max_def js_sub_def
        lit_1_5 lit_0_95 lit_1_2 lit_1_1 lit_0_9 fl_numeral fl_200_095 fl_100_12 fl_100_11 fl_100_09 fl_50_09 fl_110_minus_100 fl_10_times_50 fl_13500_plus_500)

text \<open>
  Claim C7 as stated, with exact equalities, fails. On the forecast prices \<open>200\<close> and
  \<open>100\<close> at the generation cost \<open>100\<close> the second decision has the bid price
  110.00000000000001 and the expected profit 500.0000000000007, which is not
  (bid price - generation cost) times \<open>50\<close>, and the total is \<open>14000\<close>, which is not
  the sum of \<open>13500\<close> and 500.0000000000007. On the prices \<open>100\<close>, \<open>100\<close>,
  \<open>200\<close> the total is 14500.000000000002, while the same three expected profits
  added up from the last to the first give \<open>14500\<close>.
\<close>

theorem optimizer_profit_totals_counterexample:
  "map_sum id bidding_schedule
     (runOptimizationAlgorithm
     [\<lparr> p_timestamp = 0, predicted_price = Num 200, confidence_lower = Num 190,
            confidence_upper = Num 210, p_confidence_level = lit 0.95 \<rparr>,
      \<lparr> p_timestamp = 900000, predicted_price = Num 100, confidence_lower = Num 90,
            confidence_upper = Num 110, p_confidence_level = lit 0.95 \<rparr>]
     \<lparr> cost_params = Some \<lparr> generationCost = Num 100, upwardCost = Num 20, downwardCost = Num 10 \<rparr> \<rparr>)
   = Inr [\<lparr> time_period = 0, bid_price = Num 190, bid_capacity = Num 150,
                expected_profit = Num 13500, b_predicted_price = Num 200 \<rparr>,
              \<lparr> time_period = 900000, bid_price = Num (7740561859543041 / 70368744177664),
                bid_capacity = Num 50,
                expected_profit = Num (2199023255552003 / 4398046511104),
                b_predicted_price = Num 100 \<rparr>]
   \<and> map_sum id total_expected_profit
        (runOptimizationAlgorithm
           [\<lparr> p_timestamp = 0, predicted_price = Num 200, confidence_lower = Num 190,
            confidence_upper = Num 210, p_confidence_level = lit 0.95 \<rparr>,
            \<lparr> p_timestamp = 900000, predicted_price = Num 100, confidence_lower = Num 90,
            confidence_upper = Num 110, p_confidence_level = lit 0.95 \<rparr>]
           \<lparr> cost_params = Some \<lparr> generationCost = Num 100, upwardCost = Num 20, downwardCost = Num 10 \<rparr> \<rparr>)
       = Inr (Num 14000)
   \<and> ((2199023255552003 / 4398046511104) :: real) \<noteq> ((7740561859543041 / 70368744177664) - 100) * 50
   \<and> (14000 :: real) \<noteq> 13500 + (2199023255552003 / 4398046511104)
   \<and> map_sum id total_expected_profit
        (runOptimizationAlgorithm
           [\<lparr> p_timestamp = 0, predicted_price = Num 100, confidence_lower = Num 90,
            confidence_upper = Num 110, p_confidence_level = lit 0.95 \<rparr>,
            \<lparr> p_timestamp = 900000, predicted_price = Num 100, confidence_lower = Num 90,
            confidence_upper = Num 110, p_confidence_level = lit 0.95 \<rparr>,
            \<lparr> p_timestamp = 1800000, predicted_price = Num 200, confidence_lower = Num 190,
            confidence_upper = Num 210, p_confidence_level = lit 0.95 \<rparr>]
           \<lparr> cost_params = Some \<lparr> generationCost = Num 100, upwardCost = Num 20, downwardCost = Num 10 \<rparr> \<rparr>)
       = Inr (Num (7971459301376001 / 549755813888))
   \<and> map_sum id (map expected_profit \<circ> bidding_schedule)
        (runOptimizationAlgorithm
           [\<lparr> p_timestamp = 0, predicted_price = Num 100, confidence_lower = Num 90,
            confidence_upper = Num 110, p_confidence_level = lit 0.95 \<rparr>,
            \<lparr> p_timestamp = 900000, predicted_price = Num 100, confidence_lower = Num 90,
            confidence_upper = Num 110, p_confidence_level = lit 0.95 \<rparr>,
            \<lparr> p_timestamp = 1800000, predicted_price = Num 200, confidence_lower = Num 190,
            confidence_upper = Num 210, p_confidence_level = lit 0.95 \<rparr>]
           \<lparr> cost_params = Some \<lparr> generationCost = Num 100, upwardCost = Num 20, downwardCost = Num 10 \<rparr> \<rparr>)
       = Inr [Num (2199023255552003 / 4398046511104),
              Num (2199023255552003 / 4398046511104), Num 13500]
   \<and> foldr js_add
        [Num (2199023255552003 / 4398046511104),
         Num (2199023255552003 / 4398046511104), Num 13500] (Num 0)
       = Num 14500"
  by (simp add: runOptimizationAlgorithm_Some bid_of_rule js_gt_def js_max_def js_sub_def
        lit_1_5 lit_0_95 lit_1_2 lit_1_1 lit_0_9 fl_numeral fl_200_095 fl_100_12 fl_100_11 fl_100_09 fl_50_09 fl_110_minus_100 fl_10_times_50 fl_13500_plus_500 fl_P fl_P_plus_P fl_2P_plus_13500 fl_P_plus_14000)

subsection \<open>The regulation costs\<close>

text \<open>
  Claim C9. Two runs of the optimizer on the same forecast with the same generation
  cost and any upward and downward costs agree on the bidding schedule, the total
  expected profit, the mean capacity, the strategy and the risk level; the two costs
  only appear in the echoed cost parameters.
\<close>

theorem optimizer_ignores_regulation_costs:
  "\<exists>r1 r2.
     runOptimizationAlgorithm forecast
       \<lparr> cost_params = Some \<lparr> generationCost = g, upwardCost = u1, downwardCost = d1 \<rparr> \<rparr> = Inr r1
   \<and> runOptimizationAlgorithm forecast
       \<lparr> cost_params = Some \<lparr> generationCost = g, upwardCost = u2, downwardCost = d2 \<rparr> \<rparr> = Inr r2
   \<and> bidding_schedule r1 = bidding_schedule r2
   \<and> total_expected_profit r1 = total_expected_profit r2
   \<and> optimal_capacity r1 = optimal_capacity r2
   \<and> strategy r1 = strategy r2
   \<and> risk_level r1 = risk_level r2
   \<and> success r1 = success r2
   \<and> cost_parameters r1 = \<lparr> generationCost = g, upwardCost = u1, downwardCost = d1 \<rparr>
   \<and> cost_parameters r2 = \<lparr> generationCost = g, upwardCost = u2, downwardCost = d2 \<rparr>"
  by (simp add: runOptimizationAlgorithm_Some)

subsection \<open>The low-price branch\<close>

lemma margin_nonneg:
  assumes "js_le (Num g) bid"
  shows "js_le (Num 0) (js_mul (js_sub bid (Num g)) (Num 50))"
proof (cases bid)
  case (Num b)
  then have "0 \<le> b - g"
    using assms by simp
  then have d: "js_le (Num 0) (fl (b - g))"
    using fl_mono [of 0 "b - g"] by simp
  show ?thesis
  proof (cases "fl (b - g)")
    case (Num d)
    then have "0 \<le> d * 50"
      using d by simp
    then have "js_le (Num 0) (fl (d * 50))"
      using fl_mono [of 0 "d * 50"] by simp
    then show ?thesis
      using \<open>bid = Num b\<close> Num by (simp add: js_sub_def)
  next
    case PInf
    then show ?thesis
      using \<open>bid = Num b\<close> by (simp add: js_sub_def)
  next
    case NInf
    then show ?thesis
      using d by simp
  next
    case NaN
    then show ?thesis
      using d by simp
  qed
next
  case PInf
  then show ?thesis
    by (simp add: js_sub_def)
next
  case NInf
  then show ?thesis
    using assms by simp
next
  case NaN
  then show ?thesis
    using assms by simp
qed

text \<open>
  Claim C10, as the code has it. A forecast point in the low-price branch (predicted
  price below a finite, non-negative generation cost times \<open>1.2\<close>) gets capacity
  \<open>50\<close> and a bid price of at least the generation cost times \<open>1.1\<close>, and its expected
  profit, (bid price - generation cost) times \<open>50\<close>, is never negative. Products and
  differences are those of the program's numbers.
\<close>

theorem low_price_branch_profit_nonneg:
  assumes "cost_params config = Some cp" and "i < length forecast"
    and "generationCost cp = Num g" and "is_double g" and "0 \<le> g"
    and "js_lt (predicted_price (forecast ! i)) (js_mul (Num g) (lit 1.2))"
  shows "\<exists>result. runOptimizationAlgorithm forecast config = Inr result
           \<and> (let b = bidding_schedule result ! i
               in bid_capacity b = Num 50
                  \<and> bid_price b = js_max (js_mul (Num g) (lit 1.1))
                                         (js_mul (predicted_price (forecast ! i)) (lit 0.9))
                  \<and> js_le (js_mul (Num g) (lit 1.1)) (bid_price b)
                  \<and> expected_profit b = js_mul (js_sub (bid_price b) (Num g)) (Num 50)
                  \<and> js_le (Num 0) (expected_profit b))"
proof -
  let ?p = "predicted_price (forecast ! i)"
  let ?b = "bid_of (Num g) (forecast ! i)"
  obtain result where r: "runOptimizationAlgorithm forecast config = Inr result"
    and s: "bidding_schedule result = map (bid_of (generationCost cp)) forecast"
    using runOptimizationAlgorithm_schedule [OF assms(1)] by blast
  have b: "bidding_schedule result ! i = ?b"
    using s assms(2,3) by simp
  have "js_le (js_mul (Num g) (lit 1.2)) (js_mul (Num g) (lit 1.5))"
    using assms(5) by (simp add: lit_1_2 lit_1_5 fl_mono mult_left_mono)
  then have "js_lt ?p (js_mul (Num g) (lit 1.5))"
    using assms(6) by (rule js_lt_le_trans [rotated])
  then have notHigh: "\<not> js_gt ?p (js_mul (Num g) (lit 1.5))"
    unfolding js_gt_def by (rule js_lt_asym)
  have cap: "bid_capacity ?b = Num 50"
    using notHigh assms(6) by (simp add: bid_of_rule)
  have bp: "bid_price ?b = js_max (js_mul (Num g) (lit 1.1)) (js_mul ?p (lit 0.9))"
    using notHigh assms(6) by (simp add: bid_of_rule)
  have n1: "\<not> isNaN (js_mul (Num g) (lit 1.1))"
    by (simp add: lit_1_1)
  have n2: "\<not> isNaN (js_mul ?p (lit 0.9))"
    using assms(6) by (cases ?p) (simp_all add: lit_0_9)
  have ge: "js_le (js_mul (Num g) (lit 1.1)) (bid_price ?b)"
    unfolding bp using n1 n2 by (rule js_le_max)
  have "js_le (js_mul (Num g) (Num 1)) (js_mul (Num g) (lit 1.1))"
    using assms(5) fl_mono [of "g * 1" "g * (2476979795053773 / 2251799813685248)"]
    by (simp add: lit_1_1 mult_left_mono)
  then have "js_le (Num g) (js_mul (Num g) (lit 1.1))"
    using assms(4) by (simp add: is_double_def)
  then have "js_le (Num g) (bid_price ?b)"
    using ge by (rule js_le_trans)
  then have ep0: "js_le (Num 0) (js_mul (js_sub (bid_price ?b) (Num g)) (Num 50))"
    by (rule margin_nonneg)
  have ep: "expected_profit ?b = js_mul (js_sub (bid_price ?b) (Num g)) (Num 50)"
    using cap by (simp add: bid_of_rule(3))
  show ?thesis
    using r b cap bp ge ep ep0 by (simp add: Let_def)
qed

theorem low_price_branch_profit_nonneg_witness:
  "cost_params \<lparr> cost_params = Some \<lparr> generationCost = Num 100, upwardCost = Num 20, downwardCost = Num 10 \<rparr> \<rparr>
     = Some \<lparr> generationCost = Num 100, upwardCost = Num 20, downwardCost = Num 10 \<rparr>
   \<and> (0::nat) < length
        [\<lparr> p_timestamp = 0, predicted_price = Num 50, confidence_lower = Num 40,
            confidence_upper = Num 60, p_confidence_level = lit 0.95 \<rparr>]
   \<and> generationCost \<lparr> generationCost = Num 100, upwardCost = Num 20, downwardCost = Num 10 \<rparr> = Num 100
   \<and> is_double 100 \<and> (0::real) \<le> 100
   \<and> js_lt (predicted_price
        ([\<lparr> p_timestamp = 0, predicted_price = Num 50, confidence_lower = Num 40,
            confidence_upper = Num 60, p_confidence_level = lit 0.95 \<rparr>] ! 0))
        (js_mul (Num 100) (lit 1.2))
   \<and> (\<exists>result.
        runOptimizationAlgorithm
          [\<lparr> p_timestamp = 0, predicted_price = Num 50, confidence_lower = Num 40,
            confidence_upper = Num 60, p_confidence_level = lit 0.95 \<rparr>]
          \<lparr> cost_params = Some \<lparr> generationCost = Num 100, upwardCost = Num 20, downwardCost = Num 10 \<rparr> \<rparr>
          = Inr result
        \<and> bid_price (bidding_schedule result ! 0) = Num (7740561859543041 / 70368744177664)
        \<and> expected_profit (bidding_schedule result ! 0) = Num (2199023255552003 / 4398046511104))"
  using low_price_branch_profit_nonneg
    [of "\<lparr> cost_params = Some \<lparr> generationCost = Num 100, upwardCost = Num 20, downwardCost = Num 10 \<rparr> \<rparr>"
        "\<lparr> generationCost = Num 100, upwardCost = Num 20, downwardCost = Num 10 \<rparr>"
        0
        "[\<lparr> p_timestamp = 0, predicted_price = Num 50, confidence_lower = Num 40,
            confidence_upper = Num 60, p_confidence_level = lit 0.95 \<rparr>]"
        100]
  by (auto simp: Let_def is_double_def js_gt_def js_max_def js_sub_def lit_1_5 lit_0_95 lit_1_2 lit_1_1 lit_0_9 fl_numeral fl_200_095 fl_100_12 fl_100_11 fl_100_09 fl_50_09 fl_110_minus_100 fl_10_times_50 fl_13500_plus_500)

text \<open>
  Claim C10 as stated fails. At the generation cost \<open>470.39\<close> and the predicted price
  \<open>0\<close> the expected profit is 2351.9499999999994, less than five times the generation
  cost, 2351.95, in the program's arithmetic and in exact arithmetic alike. At the
  generation cost \<^verbatim>\<open>Infinity\<close> the expected profit is \<^verbatim>\<open>NaN\<close>.
\<close>

theorem low_price_branch_profit_counterexample:
  "js_le (Num 0) (lit 470.39)
   \<and> js_lt (Num 0) (js_mul (lit 470.39) (lit 1.2))
   \<and> lit 470.39 = Num (4137594196716421 / 8796093022208)
   \<and> map_sum id (map expected_profit \<circ> bidding_schedule)
        (runOptimizationAlgorithm
           [\<lparr> p_timestamp = 0, predicted_price = Num 0, confidence_lower = Num 0,
            confidence_upper = Num 0, p_confidence_level = lit 0.95 \<rparr>]
           \<lparr> cost_params = Some \<lparr> generationCost = lit 470.39, upwardCost = Num 20, downwardCost = Num 10 \<rparr> \<rparr>)
       = Inr [Num (5171992745895525 / 2199023255552)]
   \<and> js_mul (Num 5) (lit 470.39) = Num (2585996372947763 / 1099511627776)
   \<and> js_lt (Num (5171992745895525 / 2199023255552)) (js_mul (Num 5) (lit 470.39))
   \<and> ((5171992745895525 / 2199023255552) :: real) < 5 * (4137594196716421 / 8796093022208)
   \<and> js_lt (Num 0) (js_mul PInf (lit 1.2))
   \<and> map_sum id (map expected_profit \<circ> bidding_schedule)
        (runOptimizationAlgorithm
           [\<lparr> p_timestamp = 0, predicted_price = Num 0, confidence_lower = Num 0,
            confidence_upper = Num 0, p_confidence_level = lit 0.95 \<rparr>]
           \<lparr> cost_params = Some \<lparr> generationCost = PInf, upwardCost = Num 20, downwardCost = Num 10 \<rparr> \<rparr>)
       = Inr [NaN]"
  by (simp add: runOptimizationAlgorithm_Some bid_of_rule js_gt_def js_max_def js_sub_def
        lit_1_5 lit_0_95 lit_1_2 lit_1_1 lit_0_9 lit_470_39 fl_numeral fl_G_15 fl_G_12 fl_G_11 fl_A_minus_G fl_d_times_50 fl_5_G)

subsection \<open>The empty forecast\<close>

text \<open>
  Claim C4, as the code has it. The optimizer does not reject an empty forecast: for
  every configuration that carries cost parameters the run succeeds and the route
  answers with its result, which has an empty schedule, the total profit \<open>0\<close> and the
  strategy \<open>CONSERVATIVE\<close>.
\<close>

theorem optimize_empty_forecast_succeeds:
  "\<exists>result.
     runOptimizationAlgorithm [] \<lparr> cost_params = Some cp \<rparr> = Inr result
     \<and> api_optimize (Some []) (Some \<lparr> cost_params = Some cp \<rparr>) = Json200 result
     \<and> success result
     \<and> bidding_schedule result = []
     \<and> total_expected_profit result = Num 0
     \<and> strategy result = ''CONSERVATIVE''"
  by (simp add: api_optimize_def runOptimizationAlgorithm_Some js_gt_def)

text \<open>
  Claim C4 as stated fails: the route returns a success result for the empty forecast.
  Its two means are \<^verbatim>\<open>0 / 0\<close>.
\<close>

theorem optimize_empty_forecast_counterexample:
  "api_optimize (Some [])
     (Some \<lparr> cost_params = Some \<lparr> generationCost = Num 100, upwardCost = Num 20, downwardCost = Num 10 \<rparr> \<rparr>)
     = Json200 \<lparr> success = True, total_expected_profit = Num 0, optimal_capacity = NaN,
                 strategy = ''CONSERVATIVE'', risk_level = ''LOW'', bidding_schedule = [],
                 cost_parameters = \<lparr> generationCost = Num 100, upwardCost = Num 20, downwardCost = Num 10 \<rparr> \<rparr>"
  by (simp add: api_optimize_def runOptimizationAlgorithm_Some average_def reduce_sum_def
        js_div_len_def riskLevel_of_def js_gt_def)

section \<open>Properties of the forecast\<close>

subsection \<open>Numbers of the forecast examples\<close>

text \<open>
  The decimal literals of the forecast as binary64 values, and the rounded results the
  examples below need.
\<close>

lemma lit_0_5: "lit (1 / 2) = Num (1 / 2)"
  using fl_eval [of "- 1" "1 / 2" "4503599627370496"]
  by (simp add: lit_def pow2_def round_even_def Let_def)

lemma lit_0_3: "lit (3 / 10) = Num (5404319552844595 / 18014398509481984)"
  using fl_eval [of "- 2" "3 / 10" "5404319552844595"]
  by (simp add: lit_def pow2_def round_even_def Let_def)

lemma lit_0_99: "lit (99 / 100) = Num (4458563631096791 / 4503599627370496)"
  using fl_eval [of "- 1" "99 / 100" "8917127262193582"]
  by (simp add: lit_def pow2_def round_even_def Let_def)

lemma lit_0_85: "lit (17 / 20) = Num (7656119366529843 / 9007199254740992)"
  using fl_eval [of "- 1" "17 / 20" "7656119366529843"]
  by (simp add: lit_def pow2_def round_even_def Let_def)

lemma lit_0_1: "lit (1 / 10) = Num (3602879701896397 / 36028797018963968)"
  using fl_eval [of "- 4" "1 / 10" "7205759403792794"]
  by (simp add: lit_def pow2_def round_even_def Let_def)

lemma lit_1_3: "lit (13 / 10) = Num (5854679515581645 / 4503599627370496)"
  using fl_eval [of "0" "13 / 10" "5854679515581645"]
  by (simp add: lit_def pow2_def round_even_def Let_def)

lemma fl_draw_centred: "fl (- (7 / 16)) = Num (- (7 / 16))"
  using fl_eval [of "- 2" "- (7 / 16)" "- 7881299347898368"]
  by (simp add: pow2_def round_even_def Let_def)

lemma fl_draw_spread: "fl (- (35 / 8)) = Num (- (35 / 8))"
  using fl_eval [of "2" "- (35 / 8)" "- 4925812092436480"]
  by (simp add: pow2_def round_even_def Let_def)

lemma fl_noise: "fl (- (189151184349560825 / 144115188075855872)) = Num (- (21 / 16))"
  using fl_eval [of "0" "- (189151184349560825 / 144115188075855872)" "- 5910974510923776"]
  by (simp add: pow2_def round_even_def Let_def)

lemma fl_raw: "fl (- (5 / 16)) = Num (- (5 / 16))"
  using fl_eval [of "- 2" "- (5 / 16)" "- 5629499534213120"]
  by (simp add: pow2_def round_even_def Let_def)

lemma fl_one_minus_099: "fl (45035996273705 / 4503599627370496) = Num (45035996273705 / 4503599627370496)"
  using fl_eval [of "- 7" "45035996273705 / 4503599627370496" "5764607523034240"]
  by (simp add: pow2_def round_even_def Let_def)

lemma fl_spread_099: "fl (225179981368525 / 2251799813685248) = Num (225179981368525 / 2251799813685248)"
  using fl_eval [of "- 4" "225179981368525 / 2251799813685248" "7205759403792800"]
  by (simp add: pow2_def round_even_def Let_def)

lemma fl_range_099: "fl (225179981368525 / 1125899906842624) = Num (225179981368525 / 1125899906842624)"
  using fl_eval [of "- 3" "225179981368525 / 1125899906842624" "7205759403792800"]
  by (simp add: pow2_def round_even_def Let_def)

lemma fl_lower_099: "fl (- (577023702256845 / 1125899906842624)) = Num (- (577023702256845 / 1125899906842624))"
  using fl_eval [of "- 1" "- (577023702256845 / 1125899906842624)" "- 4616189618054760"]
  by (simp add: pow2_def round_even_def Let_def)

lemma fl_upper_099: "fl (- (126663739519795 / 1125899906842624)) = Num (- (126663739519795 / 1125899906842624))"
  using fl_eval [of "- 4" "- (126663739519795 / 1125899906842624)" "- 8106479329266880"]
  by (simp add: pow2_def round_even_def Let_def)

lemma fl_acc_term: "fl (3602879701896397 / 576460752303423488) = Num (3602879701896397 / 576460752303423488)"
  using fl_eval [of "- 8" "3602879701896397 / 576460752303423488" "7205759403792794"]
  by (simp add: pow2_def round_even_def Let_def)

lemma fl_accuracy: "fl (493594519159806349 / 576460752303423488) = Num (3856207180935987 / 4503599627370496)"
  using fl_eval [of "- 1" "493594519159806349 / 576460752303423488" "7712414361871974"]
  by (simp add: pow2_def round_even_def Let_def)

lemma fl_lower_2: "fl (315 / 16) = Num (315 / 16)"
  using fl_eval [of "4" "315 / 16" "5541538603991040"]
  by (simp add: pow2_def round_even_def Let_def)

lemma fl_upper_2: "fl (- (325 / 16)) = Num (- (325 / 16))"
  using fl_eval [of "4" "- (325 / 16)" "- 5717460464435200"]
  by (simp add: pow2_def round_even_def Let_def)

lemma fl_base_12: "fl (5404319552844595 / 4503599627370496) = Num (5404319552844595 / 4503599627370496)"
  using fl_eval [of "0" "5404319552844595 / 4503599627370496" "5404319552844595"]
  by (simp add: pow2_def round_even_def Let_def)

lemma fl_raw_9: "fl (- (506654958079181 / 4503599627370496)) = Num (- (506654958079181 / 4503599627370496))"
  using fl_eval [of "- 4" "- (506654958079181 / 4503599627370496)" "- 8106479329266896"]
  by (simp add: pow2_def round_even_def Let_def)

lemma fl_bound: "fl (27021597764222975 / 9007199254740992) = Num 3"
  using fl_eval [of "1" "27021597764222975 / 9007199254740992" "6755399441055744"]
  by (simp add: pow2_def round_even_def Let_def)

lemma fl_half_bound: "fl (27021597764222975 / 18014398509481984) = Num (3 / 2)"
  using fl_eval [of "0" "27021597764222975 / 18014398509481984" "6755399441055744"]
  by (simp add: pow2_def round_even_def Let_def)

lemma fl_one_minus_095: "fl (225179981368525 / 4503599627370496) = Num (225179981368525 / 4503599627370496)"
  using fl_eval [of "- 5" "225179981368525 / 4503599627370496" "7205759403792800"]
  by (simp add: pow2_def round_even_def Let_def)

lemma fl_spread_095: "fl (1125899906842625 / 2251799813685248) = Num (1125899906842625 / 2251799813685248)"
  using fl_eval [of "- 1" "1125899906842625 / 2251799813685248" "4503599627370500"]
  by (simp add: pow2_def round_even_def Let_def)

lemma fl_range_095: "fl (1125899906842625 / 1125899906842624) = Num (1125899906842625 / 1125899906842624)"
  using fl_eval [of "0" "1125899906842625 / 1125899906842624" "4503599627370500"]
  by (simp add: pow2_def round_even_def Let_def)

lemma fl_lower_9: "fl (- (5010254585449681 / 4503599627370496)) = Num (- (5010254585449681 / 4503599627370496))"
  using fl_eval [of "0" "- (5010254585449681 / 4503599627370496)" "- 5010254585449681"]
  by (simp add: pow2_def round_even_def Let_def)

lemma fl_upper_9: "fl (3996944669291319 / 4503599627370496) = Num (3996944669291319 / 4503599627370496)"
  using fl_eval [of "- 1" "3996944669291319 / 4503599627370496" "7993889338582638"]
  by (simp add: pow2_def round_even_def Let_def)

lemma fl_base_minus_bound: "fl (- (8106479329266893 / 4503599627370496)) = Num (- (8106479329266893 / 4503599627370496))"
  using fl_eval [of "0" "- (8106479329266893 / 4503599627370496)" "- 8106479329266893"]
  by (simp add: pow2_def round_even_def Let_def)

lemma fl_base_plus_bound: "fl (18915118434956083 / 4503599627370496) = Num (4728779608739021 / 1125899906842624)"
  using fl_eval [of "2" "18915118434956083 / 4503599627370496" "4728779608739021"]
  by (simp add: pow2_def round_even_def Let_def)

lemma fl_64_12: "fl (5404319552844595 / 70368744177664) = Num (5404319552844595 / 70368744177664)"
  using fl_eval [of "6" "5404319552844595 / 70368744177664" "5404319552844595"]
  by (simp add: pow2_def round_even_def Let_def)

subsection \<open>The window and its statistics\<close>

text \<open>
  The window of a non-empty store is non-empty, so \<^verbatim>\<open>math.std\<close> does not throw on
  it. A standard deviation that is a finite number is a binary64 value and not
  negative.
\<close>

lemma slice_last_nonempty:
  assumes "xs \<noteq> []"
  shows "slice_last 168 xs \<noteq> []"
proof -
  have "0 < length xs" using assms by simp
  then have "length xs - 168 < length xs" by arith
  then show ?thesis by (simp add: slice_last_def)
qed

lemma math_std_nonempty:
  "xs \<noteq> [] \<Longrightarrow> math_std xs = Inr (js_sqrt (math_variance xs))"
  by (simp add: math_std_def)

lemma js_sqrt_Num:
  assumes "js_sqrt v = Num s"
  shows "is_double s" and "0 \<le> s"
proof -
  obtain x where v: "v = Num x" and x: "0 \<le> x" and s: "fl (sqrt x) = Num s"
    using assms by (cases v) (simp_all split: if_splits)
  show "is_double s"
    using s by (rule fl_is_double)
  have "js_le (fl 0) (fl (sqrt x))"
    using x by (intro fl_mono) simp
  then show "0 \<le> s"
    using s by simp
qed

lemma math_std_Num:
  assumes "math_std xs = Inr (Num s)"
  shows "is_double s" and "0 \<le> s"
proof -
  have "js_sqrt (math_variance xs) = Num s"
    using assms by (simp add: math_std_def split: if_splits)
  then show "is_double s" and "0 \<le> s"
    by (rule js_sqrt_Num)+
qed

lemma reduce_sum_map: "reduce_sum f xs = foldl js_add (Num 0) (map f xs)"
proof -
  have "foldl (\<lambda>sum x. js_add sum (f x)) a xs = foldl js_add a (map f xs)" for a
    by (induction xs arbitrary: a) simp_all
  then show ?thesis
    by (simp add: reduce_sum_def)
qed

subsection \<open>The loop\<close>

text \<open>
  A round succeeds exactly when the start is a valid date and the time of the round is
  inside the range of dates.
\<close>

lemma prediction_step_Some:
  "prediction_step e a s l (Some b) i =
     (if \<bar>b + int i * 900000\<bar> \<le> 8640000000000000
      then Inr (prediction_point e a s l (b + int i * 900000) (math_random e i))
      else Inl RangeError)"
  by (simp add: prediction_step_def new_Date_def timeClip_def mult.commute)

lemma prediction_step_None: "prediction_step e a s l None i = Inl RangeError"
  by (simp add: prediction_step_def)

lemma p_timestamp_prediction_point [simp]:
  "p_timestamp (prediction_point e a s l t r) = t"
  by (simp add: prediction_point_def Let_def)

lemma p_confidence_level_prediction_point [simp]:
  "p_confidence_level (prediction_point e a s l t r) = l"
  by (simp add: prediction_point_def Let_def)

lemma predicted_price_prediction_point:
  "predicted_price (prediction_point e a s l t r)
     = js_max (Num 0) (predictedPrice_of a s (timeFactor_of (getHours e t) (getDay e t)) r)"
  by (simp add: prediction_point_def Let_def)

text \<open>With an invalid start the first round throws, if there is one.\<close>

lemma prediction_loop_None:
  "prediction_loop e a s cfg None i acc =
     (if js_lt (Num (real i)) (prediction_hours cfg) then Inl RangeError else Inr acc)"
  by (subst prediction_loop.simps) (simp add: prediction_step_None)

text \<open>No round is run when the horizon is not above the counter.\<close>

lemma prediction_loop_no_rounds:
  "\<not> js_lt (Num (real i)) (prediction_hours cfg)
     \<Longrightarrow> prediction_loop e a s cfg bd i acc = Inr acc"
  by (subst prediction_loop.simps) simp

text \<open>
  With a valid start and a horizon that is a natural number \<open>n\<close>, the loop pushes the
  points of the counters below \<open>n\<close>, provided the last of their times is a date.
\<close>

lemma prediction_loop_in_range:
  assumes "prediction_hours cfg = Num (real n)"
    and "- 8640000000000000 \<le> b"
    and "n = 0 \<or> b + (int n - 1) * 900000 \<le> 8640000000000000"
  shows "prediction_loop e a s cfg (Some b) i acc =
           Inr (acc @ map (\<lambda>k. prediction_point e a s (confidence_level cfg)
                                 (b + int k * 900000) (math_random e k))
                          [i..<n])"
  using assms
proof (induction e a s cfg "Some b" i acc rule: prediction_loop.induct)
  case (1 e a s cfg i acc)
  show ?case
  proof (cases "i < n")
    case True
    then have c: "js_lt (Num (real i)) (prediction_hours cfg)"
      using "1.prems"(1) by simp
    have "int i \<le> int n - 1"
      using True by simp
    then have "b + int i * 900000 \<le> b + (int n - 1) * 900000"
      by simp
    then have "b + int i * 900000 \<le> 8640000000000000"
      using "1.prems"(3) True by simp
    moreover have "- 8640000000000000 \<le> b + int i * 900000"
      using "1.prems"(2) by simp
    ultimately have step:
      "prediction_step e a s (confidence_level cfg) (Some b) i
         = Inr (prediction_point e a s (confidence_level cfg) (b + int i * 900000)
                  (math_random e i))"
      by (simp add: prediction_step_Some abs_le_iff)
    show ?thesis
      using True "1.hyps" [OF c step "1.prems"]
      by (subst prediction_loop.simps) (simp add: c step upt_conv_Cons)
  next
    case False
    then have "\<not> js_lt (Num (real i)) (prediction_hours cfg)"
      using "1.prems"(1) by simp
    then show ?thesis
      using False by (simp add: prediction_loop_no_rounds)
  qed
qed

text \<open>
  Every point of a loop that returns is the point of its counter: the counter of the
  first new point is the counter the loop was entered with.
\<close>

lemma prediction_loop_points:
  assumes "prediction_loop e a s cfg bd i acc = Inr ps"
  shows "\<exists>qs. ps = acc @ qs
           \<and> (\<forall>k < length qs.
                 qs ! k = prediction_point e a s (confidence_level cfg)
                            (p_timestamp (qs ! k)) (math_random e (i + k)))"
  using assms
proof (induction e a s cfg bd i acc rule: prediction_loop.induct)
  case (1 e a s cfg bd i acc)
  show ?case
  proof (cases "js_lt (Num (real i)) (prediction_hours cfg)")
    case False
    then have "ps = acc"
      using "1.prems" by (simp add: prediction_loop_no_rounds)
    then show ?thesis
      by simp
  next
    case True
    have unfold: "prediction_loop e a s cfg bd i acc =
        (case prediction_step e a s (confidence_level cfg) bd i of
           Inl err \<Rightarrow> Inl err
         | Inr p \<Rightarrow> prediction_loop e a s cfg bd (i + 1) (acc @ [p]))"
      using True by (subst prediction_loop.simps) simp
    obtain p where step: "prediction_step e a s (confidence_level cfg) bd i = Inr p"
      and rest: "prediction_loop e a s cfg bd (i + 1) (acc @ [p]) = Inr ps"
      using "1.prems" unfolding unfold by (auto split: sum.splits)
    have p: "p = prediction_point e a s (confidence_level cfg) (p_timestamp p)
                   (math_random e i)"
      using step by (cases bd) (auto simp: prediction_step_None prediction_step_Some
                                     split: if_splits)
    obtain qs where qs: "ps = (acc @ [p]) @ qs"
      and all: "\<forall>k < length qs.
                  qs ! k = prediction_point e a s (confidence_level cfg)
                             (p_timestamp (qs ! k)) (math_random e (i + 1 + k))"
      using "1.IH" [OF True step rest] by blast
    have "\<forall>k < length (p # qs).
            (p # qs) ! k = prediction_point e a s (confidence_level cfg)
                             (p_timestamp ((p # qs) ! k)) (math_random e (i + k))"
    proof (intro allI impI)
      fix k
      assume k: "k < length (p # qs)"
      show "(p # qs) ! k = prediction_point e a s (confidence_level cfg)
                             (p_timestamp ((p # qs) ! k)) (math_random e (i + k))"
      proof (cases k)
        case 0
        then show ?thesis
          using p by simp
      next
        case (Suc j)
        then have "j < length qs"
          using k by simp
        then show ?thesis
          using all Suc by simp
      qed
    qed
    moreover have "ps = acc @ (p # qs)"
      using qs by simp
    ultimately show ?thesis
      by blast
  qed
qed

text \<open>
  Whether the loop returns or throws, and the times of the points it returns, depend
  on the horizon and the start only: not on the confidence level, the statistics or
  the draws.
\<close>

lemma prediction_loop_times:
  assumes "prediction_hours cfg' = prediction_hours cfg"
    and "map p_timestamp acc' = map p_timestamp acc"
  shows "map_sum id (map p_timestamp) (prediction_loop e' a' s' cfg' bd i acc')
           = map_sum id (map p_timestamp) (prediction_loop e a s cfg bd i acc)"
  using assms
proof (induction e a s cfg bd i acc arbitrary: acc' rule: prediction_loop.induct)
  case (1 e a s cfg bd i acc)
  show ?case
  proof (cases "js_lt (Num (real i)) (prediction_hours cfg)")
    case False
    then show ?thesis
      using "1.prems" by (simp add: prediction_loop_no_rounds)
  next
    case True
    have u: "prediction_loop e a s cfg bd i acc =
        (case prediction_step e a s (confidence_level cfg) bd i of
           Inl err \<Rightarrow> Inl err
         | Inr p \<Rightarrow> prediction_loop e a s cfg bd (i + 1) (acc @ [p]))"
      using True by (subst prediction_loop.simps) simp
    have u': "prediction_loop e' a' s' cfg' bd i acc' =
        (case prediction_step e' a' s' (confidence_level cfg') bd i of
           Inl err \<Rightarrow> Inl err
         | Inr p \<Rightarrow> prediction_loop e' a' s' cfg' bd (i + 1) (acc' @ [p]))"
      using True "1.prems"(1) by (subst prediction_loop.simps) simp
    show ?thesis
    proof (cases "prediction_step e a s (confidence_level cfg) bd i")
      case (Inl err)
      then have "err = RangeError"
        by (cases bd) (auto simp: prediction_step_None prediction_step_Some split: if_splits)
      moreover have "prediction_step e' a' s' (confidence_level cfg') bd i = Inl RangeError"
        using Inl
        by (cases bd) (auto simp: prediction_step_None prediction_step_Some split: if_splits)
      ultimately show ?thesis
        using Inl by (simp add: u u')
    next
      case (Inr p)
      then obtain p' where
        p': "prediction_step e' a' s' (confidence_level cfg') bd i = Inr p'"
        and t: "p_timestamp p' = p_timestamp p"
        by (cases bd) (auto simp: prediction_step_None prediction_step_Some split: if_splits)
      have "map p_timestamp (acc' @ [p']) = map p_timestamp (acc @ [p])"
        using "1.prems"(2) t by simp
      then have "map_sum id (map p_timestamp)
                   (prediction_loop e' a' s' cfg' bd (i + 1) (acc' @ [p']))
                 = map_sum id (map p_timestamp)
                   (prediction_loop e a s cfg bd (i + 1) (acc @ [p]))"
        using "1.IH" [OF True Inr "1.prems"(1)] by blast
      then show ?thesis
        by (simp only: u u' Inr p' sum.case)
    qed
  qed
qed

subsection \<open>The run\<close>

text \<open>
  On a loaded, non-empty store the data check passes and \<^verbatim>\<open>math.std\<close> returns, so
  the result is decided by the loop.
\<close>

lemma runPredictionAlgorithm_loaded:
  assumes "isDataLoaded st" and "powerMarketData st \<noteq> []"
  shows "runPredictionAlgorithm e st cfg =
           (case prediction_loop e
                   (average price (slice_last 168 (powerMarketData st)))
                   (js_sqrt (math_variance (map price (slice_last 168 (powerMarketData st)))))
                   cfg (new_Date (prediction_date cfg)) 0 [] of
              Inl err \<Rightarrow> Inl err
            | Inr ps \<Rightarrow>
                Inr \<lparr> p_success = True,
                      predictions = ps,
                      statistics =
                        \<lparr> average_price = average predicted_price ps,
                          total_points = length ps,
                          s_confidence_level = confidence_level cfg,
                          based_on_real_data = True,
                          real_data_points = length (powerMarketData st) \<rparr>,
                      accuracy = js_add (lit 0.85)
                                   (js_mul (Num (math_random e (length ps))) (lit 0.1)) \<rparr>)"
proof -
  have "map price (slice_last 168 (powerMarketData st)) \<noteq> []"
    using slice_last_nonempty [OF assms(2)] by simp
  then have "math_std (map price (slice_last 168 (powerMarketData st)))
               = Inr (js_sqrt (math_variance (map price (slice_last 168 (powerMarketData st)))))"
    by (rule math_std_nonempty)
  then show ?thesis
    using assms by (simp add: runPredictionAlgorithm_def Let_def average_def)
qed

lemma runPredictionAlgorithm_Inr:
  assumes "runPredictionAlgorithm e st cfg = Inr res"
  shows "isDataLoaded st" and "powerMarketData st \<noteq> []"
    and "prediction_loop e
           (average price (slice_last 168 (powerMarketData st)))
           (js_sqrt (math_variance (map price (slice_last 168 (powerMarketData st)))))
           cfg (new_Date (prediction_date cfg)) 0 [] = Inr (predictions res)"
proof -
  show l: "isDataLoaded st" and n: "powerMarketData st \<noteq> []"
    using assms by (auto simp: runPredictionAlgorithm_def split: if_splits)
  show "prediction_loop e
           (average price (slice_last 168 (powerMarketData st)))
           (js_sqrt (math_variance (map price (slice_last 168 (powerMarketData st)))))
           cfg (new_Date (prediction_date cfg)) 0 [] = Inr (predictions res)"
    using assms unfolding runPredictionAlgorithm_loaded [OF l n]
    by (auto split: sum.splits)
qed

lemma runPredictionAlgorithm_times:
  "map_sum id (map p_timestamp \<circ> predictions)
       (runPredictionAlgorithm e st (cfg\<lparr> confidence_level := level \<rparr>))
     = map_sum id (map p_timestamp \<circ> predictions) (runPredictionAlgorithm e st cfg)"
proof (cases "isDataLoaded st \<and> powerMarketData st \<noteq> []")
  case False
  then show ?thesis
    by (auto simp: runPredictionAlgorithm_def)
next
  case True
  then have l: "isDataLoaded st" and n: "powerMarketData st \<noteq> []"
    by simp_all
  let ?a = "average price (slice_last 168 (powerMarketData st))"
  let ?s = "js_sqrt (math_variance (map price (slice_last 168 (powerMarketData st))))"
  have "map_sum id (map p_timestamp)
          (prediction_loop e ?a ?s (cfg\<lparr> confidence_level := level \<rparr>)
             (new_Date (prediction_date cfg)) 0 [])
        = map_sum id (map p_timestamp)
          (prediction_loop e ?a ?s cfg (new_Date (prediction_date cfg)) 0 [])"
    by (rule prediction_loop_times) simp_all
  then show ?thesis
    unfolding runPredictionAlgorithm_loaded [OF l n]
    by (auto split: sum.splits)
qed

subsection \<open>The time factor and the noise\<close>

lemma timeFactor_of_peak:
  assumes "(8 \<le> h \<and> h \<le> 10) \<or> (18 \<le> h \<and> h \<le> 20)" and "d \<noteq> 0" and "d \<noteq> 6"
  shows "timeFactor_of h d = (if h \<le> 10 then lit 1.2 else lit 1.3)"
  using assms by (auto simp: timeFactor_of_def Let_def)

lemma js_le_Num_between:
  assumes "js_le (Num a) v" and "js_le v (Num b)"
  shows "\<exists>y. v = Num y \<and> a \<le> y \<and> y \<le> b"
  using assms by (cases v) simp_all

lemma js_add_mono:
  assumes "y \<le> z" and "\<not> isNaN a"
  shows "js_le (js_add a (Num y)) (js_add a (Num z))"
  using assms by (cases a) (simp_all add: fl_mono)

text \<open>
  The noise \<^verbatim>\<open>(Math.random() - 0.5) * priceStd * 0.3\<close> for a finite deviation
  \<open>s\<close> and a draw in \<open>[0, 1)\<close>: its size is at most the rounded product of half the
  deviation and \<open>0.3\<close>, which is at most the rounded product of the deviation and
  \<open>0.3\<close>.
\<close>

lemma noise_of_bound:
  assumes "0 \<le> r" and "r < 1" and "is_double s" and "0 \<le> s"
  shows "\<exists>n h b. noise_of (Num s) r = Num n
           \<and> js_mul (js_mul (Num (1 / 2)) (Num s)) (lit 0.3) = Num h
           \<and> js_mul (Num s) (lit 0.3) = Num b
           \<and> \<bar>n\<bar> \<le> h \<and> h \<le> b"
proof -
  have s: "fl s = Num s"
    using assms(3) by (simp add: is_double_def)
  have ms: "fl (- s) = Num (- s)"
    by (simp add: fl_minus s)
  have half: "fl (1 / 2) = Num (1 / 2)"
    using lit_0_5 by (simp add: lit_def)
  have mhalf: "fl (- (1 / 2)) = Num (- (1 / 2))"
    using fl_minus [of "1 / 2"] by (simp add: half)
  obtain d where d: "fl (r - 1 / 2) = Num d" and d1: "- (1 / 2) \<le> d" and d2: "d \<le> 1 / 2"
    using fl_between [of "- (1 / 2)" "r - 1 / 2" "1 / 2", OF _ _ mhalf half] assms(1,2)
    by auto
  have "0 \<le> s / 2" and "s / 2 \<le> s"
    using assms(4) by simp_all
  then obtain hs where hs: "fl (s / 2) = Num hs" and hs0: "0 \<le> hs" and hs1: "hs \<le> s"
    using fl_between [of 0 "s / 2" s, OF _ _ fl_zero s] by auto
  have mhs: "fl (- (s / 2)) = Num (- hs)"
    using fl_minus [of "s / 2"] by (simp add: hs)
  have "- (s / 2) \<le> d * s" and "d * s \<le> s / 2"
    using d1 d2 assms(4) mult_right_mono [of "- (1 / 2)" d s] mult_right_mono [of d "1 / 2" s]
    by simp_all
  then obtain m where m: "fl (d * s) = Num m" and m1: "- hs \<le> m" and m2: "m \<le> hs"
    using fl_between [of "- (s / 2)" "d * s" "s / 2", OF _ _ mhs hs] by auto
  let ?c = "5404319552844595 / 18014398509481984 :: real"
  have c: "lit 0.3 = Num ?c"
    by (rule lit_0_3)
  have "0 \<le> hs * ?c" and "hs * ?c \<le> s * ?c"
    using hs0 hs1 by simp_all
  moreover have "s * ?c \<le> s"
    using assms(4) mult_left_mono [of ?c 1 s] by simp
  ultimately obtain b where b: "fl (s * ?c) = Num b" and "0 \<le> b"
    using fl_between [of 0 "s * ?c" s, OF _ _ fl_zero s] by auto
  obtain h where h: "fl (hs * ?c) = Num h" and h0: "0 \<le> h" and hb: "h \<le> b"
    using fl_between [of 0 "hs * ?c" "s * ?c", OF _ _ fl_zero b]
      \<open>0 \<le> hs * ?c\<close> \<open>hs * ?c \<le> s * ?c\<close> by auto
  have mh: "fl (- (hs * ?c)) = Num (- h)"
    using fl_minus [of "hs * ?c"] h by simp
  have "- (hs * ?c) \<le> m * ?c" and "m * ?c \<le> hs * ?c"
    using m1 m2 mult_right_mono [of "- hs" m ?c] mult_right_mono [of m hs ?c] by simp_all
  then obtain n where n: "fl (m * ?c) = Num n" and n1: "- h \<le> n" and n2: "n \<le> h"
    using fl_between [of "- (hs * ?c)" "m * ?c" "hs * ?c", OF _ _ mh h] by auto
  have "noise_of (Num s) r = Num n"
    using d m n half by (simp add: noise_of_def js_sub_def lit_def c [unfolded lit_def])
  moreover have "js_mul (js_mul (Num (1 / 2)) (Num s)) (lit 0.3) = Num h"
    using hs h by (simp add: c)
  moreover have "js_mul (Num s) (lit 0.3) = Num b"
    using b by (simp add: c)
  moreover have "\<bar>n\<bar> \<le> h"
    using n1 n2 by (simp add: abs_le_iff)
  ultimately show ?thesis
    using hb by blast
qed

text \<open>
  In exact arithmetic, half the sample deviation of two or more values is at most
  their population deviation: the two are the square roots of the same sum of squares
  \<open>S\<close>, divided by \<open>n - 1\<close> and by \<open>n\<close>. So the bound by half the deviation that
  \<^verbatim>\<open>math.std\<close> returns is, up to rounding, below the bound by the population
  deviation.
\<close>

lemma half_sample_deviation_le_population:
  assumes "2 \<le> n" and "0 \<le> S"
  shows "sqrt (S / real (n - 1)) / 2 \<le> sqrt (S / real n)"
proof -
  have n2: "2 \<le> real n"
    using assms(1) by simp
  have n1: "real (n - 1) = real n - 1"
    using assms(1) by (simp add: of_nat_diff)
  have "real n \<le> 4 * (real n - 1)" and "0 < 4 * (real n - 1) * real n"
    using n2 by simp_all
  then have "S / (4 * (real n - 1)) \<le> S / real n"
    using assms(2) by (intro divide_left_mono)
  then have "sqrt (S / (4 * (real n - 1))) \<le> sqrt (S / real n)"
    by (simp only: real_sqrt_le_iff)
  moreover have "sqrt (S / (4 * (real n - 1))) = sqrt (S / (real n - 1)) / 2"
    using real_sqrt_divide [of "S / (real n - 1)" 4] by (simp add: mult.commute)
  ultimately show ?thesis
    by (simp only: n1)
qed

subsection \<open>The sample stores\<close>

text \<open>
  On the sample store of a hundred observations the mean price is \<open>1\<close> and the
  standard deviation \<open>10\<close>; every intermediate sum is an integer.
\<close>

lemma fl_minus_one [simp]: "fl (- 1) = Num (- 1)"
  using fl_minus [of 1] by simp

lemma foldl_add_zeros: "foldl js_add (Num 0) (replicate n (Num 0)) = Num 0"
  by (induction n) simp_all

lemma foldl_add_ones:
  "k + n < 2 ^ 53 \<Longrightarrow>
     foldl js_add (Num (real k)) (replicate n (Num 1)) = Num (real (k + n))"
proof (induction n arbitrary: k)
  case 0
  show ?case by simp
next
  case (Suc n)
  have "fl (real k + 1) = Num (real (Suc k))"
    using fl_of_nat [of "Suc k"] Suc.prems by (simp add: add.commute)
  then show ?case
    using Suc.IH [of "Suc k"] Suc.prems by simp
qed

lemma sum_from_first_replicate:
  "sum_from_first (replicate (Suc n) v @ ys) = foldl js_add v (replicate n v @ ys)"
  by (simp add: sum_from_first_def)

lemma sqrt_100: "sqrt 100 = 10"
  by (rule real_sqrt_unique) simp_all

lemma spike_prices:
  "map price (slice_last 168 (powerMarketData spike_store))
     = replicate 99 (Num 0) @ [Num 100]"
  by (simp add: spike_store_def slice_last_def sample_observation_def)

lemma spike_avg: "average price (slice_last 168 (powerMarketData spike_store)) = Num 1"
proof -
  have "length (slice_last 168 (powerMarketData spike_store)) = 100"
    by (simp add: spike_store_def slice_last_def)
  then show ?thesis
    by (simp add: average_def reduce_sum_map spike_prices foldl_add_zeros js_div_len_def
          fl_numeral)
qed

lemma spike_sum: "sum_from_first (replicate 99 (Num 0) @ [Num 100]) = Num 100"
  using sum_from_first_replicate [of 98 "Num 0" "[Num 100]"]
  by (simp add: foldl_add_zeros fl_numeral)

lemma spike_squares: "sum_from_first (replicate 99 (Num 1) @ [Num 9801]) = Num 9900"
  using sum_from_first_replicate [of 98 "Num 1" "[Num 9801]"] foldl_add_ones [of 1 98]
  by (simp add: fl_numeral)

lemma spike_variance: "math_variance (replicate 99 (Num 0) @ [Num 100]) = Num 100"
  by (simp add: math_variance_def Let_def spike_sum js_div_len_def js_sub_def fl_numeral
        spike_squares)

lemma spike_std: "js_sqrt (math_variance (replicate 99 (Num 0) @ [Num 100])) = Num 10"
  by (simp add: spike_variance sqrt_100 fl_numeral)

lemma spike_run:
  "runPredictionAlgorithm e spike_store cfg =
     (case prediction_loop e (Num 1) (Num 10) cfg (new_Date (prediction_date cfg)) 0 [] of
        Inl err \<Rightarrow> Inl err
      | Inr ps \<Rightarrow>
          Inr \<lparr> p_success = True,
                predictions = ps,
                statistics =
                  \<lparr> average_price = average predicted_price ps,
                    total_points = length ps,
                    s_confidence_level = confidence_level cfg,
                    based_on_real_data = True,
                    real_data_points = 100 \<rparr>,
                accuracy = js_add (lit 0.85)
                             (js_mul (Num (math_random e (length ps))) (lit 0.1)) \<rparr>)"
proof -
  have l: "isDataLoaded spike_store" and n: "powerMarketData spike_store \<noteq> []"
    and len: "length (powerMarketData spike_store) = 100"
    by (simp_all add: spike_store_def)
  show ?thesis
    unfolding runPredictionAlgorithm_loaded [OF l n] spike_avg spike_prices spike_std len
    by (rule refl)
qed

lemma utc_hours: "getHours utc_env t = (t div 3600000) mod 24"
  and utc_day: "getDay utc_env t = (t div 86400000 + 4) mod 7"
  and utc_random: "math_random utc_env k = 1 / 16"
  by (simp_all add: getHours_def getDay_def utc_env_def)

text \<open>
  The raw prediction on the sample store with the draw \<open>1/16\<close>: \<open>-0.3125\<close> at
  midnight of a Thursday, and -0.11250000000000004 at nine o'clock.
\<close>

lemma utc_noise: "noise_of (Num 10) (1 / 16) = Num (- (21 / 16))"
  by (simp add: noise_of_def js_sub_def lit_0_5 lit_0_3 fl_draw_centred fl_draw_spread
        fl_noise)

lemma utc_raw_midnight:
  "predictedPrice_of (Num 1) (Num 10) (timeFactor_of (getHours utc_env 0) (getDay utc_env 0))
     (1 / 16) = Num (- (5 / 16))"
  by (simp add: predictedPrice_of_def utc_noise utc_hours utc_day timeFactor_of_def fl_raw)

lemma utc_raw_nine:
  "predictedPrice_of (Num 1) (Num 10)
     (timeFactor_of (getHours utc_env 32400000) (getDay utc_env 32400000)) (1 / 16)
     = Num (- (506654958079181 / 4503599627370496))"
  by (simp add: predictedPrice_of_def utc_noise utc_hours utc_day timeFactor_of_def
        lit_1_2 fl_base_12 fl_raw_9)

lemma utc_point_099:
  "prediction_point utc_env (Num 1) (Num 10) (lit 0.99) 0 (1 / 16) =
     \<lparr> p_timestamp = 0, predicted_price = Num 0, confidence_lower = Num 0,
       confidence_upper = Num (- (126663739519795 / 1125899906842624)),
       p_confidence_level = lit 0.99 \<rparr>"
  unfolding prediction_point_def Let_def utc_raw_midnight
  by (simp add: js_max_def js_sub_def lit_0_99 fl_one_minus_099 fl_spread_099 fl_range_099
        fl_lower_099 fl_upper_099)

lemma utc_point_2:
  "prediction_point utc_env (Num 1) (Num 10) (Num 2) 0 (1 / 16) =
     \<lparr> p_timestamp = 0, predicted_price = Num 0, confidence_lower = Num (315 / 16),
       confidence_upper = Num (- (325 / 16)), p_confidence_level = Num 2 \<rparr>"
  unfolding prediction_point_def Let_def utc_raw_midnight
  by (simp add: js_max_def js_sub_def fl_numeral fl_neg_numeral fl_lower_2 fl_upper_2)

lemma utc_accuracy:
  "js_add (lit 0.85) (js_mul (Num (1 / 16)) (lit 0.1))
     = Num (3856207180935987 / 4503599627370496)"
  by (simp add: lit_0_85 lit_0_1 fl_acc_term fl_accuracy)

text \<open>A store of one observation: the mean is its price, the deviation \<open>0\<close>.\<close>

lemma single_run:
  "runPredictionAlgorithm e (single_store (Num 64)) cfg =
     (case prediction_loop e (Num 64) (Num 0) cfg (new_Date (prediction_date cfg)) 0 [] of
        Inl err \<Rightarrow> Inl err
      | Inr ps \<Rightarrow>
          Inr \<lparr> p_success = True,
                predictions = ps,
                statistics =
                  \<lparr> average_price = average predicted_price ps,
                    total_points = length ps,
                    s_confidence_level = confidence_level cfg,
                    based_on_real_data = True,
                    real_data_points = 1 \<rparr>,
                accuracy = js_add (lit 0.85)
                             (js_mul (Num (math_random e (length ps))) (lit 0.1)) \<rparr>)"
proof -
  have l: "isDataLoaded (single_store (Num 64))"
    and n: "powerMarketData (single_store (Num 64)) \<noteq> []"
    by (simp_all add: single_store_def)
  have a: "average price (slice_last 168 (powerMarketData (single_store (Num 64)))) = Num 64"
    by (simp add: single_store_def slice_last_def sample_observation_def average_def
          reduce_sum_def js_div_len_def fl_numeral)
  have s: "js_sqrt (math_variance
             (map price (slice_last 168 (powerMarketData (single_store (Num 64)))))) = Num 0"
    by (simp add: single_store_def slice_last_def sample_observation_def math_variance_def
          Let_def sum_from_first_def js_div_len_def js_sub_def fl_numeral)
  have len: "length (powerMarketData (single_store (Num 64))) = 1"
    by (simp add: single_store_def)
  show ?thesis
    unfolding runPredictionAlgorithm_loaded [OF l n] a s len
    by (rule refl)
qed

text \<open>A store whose one price is \<^verbatim>\<open>Infinity\<close>: the mean is infinite, the deviation \<^verbatim>\<open>NaN\<close>.\<close>

lemma infinite_run:
  "runPredictionAlgorithm e (single_store PInf) cfg =
     (case prediction_loop e PInf NaN cfg (new_Date (prediction_date cfg)) 0 [] of
        Inl err \<Rightarrow> Inl err
      | Inr ps \<Rightarrow>
          Inr \<lparr> p_success = True,
                predictions = ps,
                statistics =
                  \<lparr> average_price = average predicted_price ps,
                    total_points = length ps,
                    s_confidence_level = confidence_level cfg,
                    based_on_real_data = True,
                    real_data_points = 1 \<rparr>,
                accuracy = js_add (lit 0.85)
                             (js_mul (Num (math_random e (length ps))) (lit 0.1)) \<rparr>)"
proof -
  have l: "isDataLoaded (single_store PInf)"
    and n: "powerMarketData (single_store PInf) \<noteq> []"
    by (simp_all add: single_store_def)
  have a: "average price (slice_last 168 (powerMarketData (single_store PInf))) = PInf"
    by (simp add: single_store_def slice_last_def sample_observation_def average_def
          reduce_sum_def js_div_len_def)
  have s: "js_sqrt (math_variance
             (map price (slice_last 168 (powerMarketData (single_store PInf))))) = NaN"
    by (simp add: single_store_def slice_last_def sample_observation_def math_variance_def
          Let_def sum_from_first_def js_div_len_def js_sub_def)
  have len: "length (powerMarketData (single_store PInf)) = 1"
    by (simp add: single_store_def)
  show ?thesis
    unfolding runPredictionAlgorithm_loaded [OF l n] a s len
    by (rule refl)
qed

subsection \<open>Length and timestamps of the forecast\<close>




subsection \<open>The noise around the seasonal price\<close>




subsection \<open>Requests the forecast does not reject\<close>

text \<open>
  Claim C5, as the code has it. The forecast checks neither the horizon nor the
  confidence level. On a loaded, non-empty store a horizon of zero or less gives a
  success result without points. And the confidence level has no part in the outcome:
  a request and the same request with any other confidence level either both fail,
  with the same error, or both succeed, with points at the same times.
\<close>

theorem forecast_accepts_any_horizon_and_level:
  assumes "isDataLoaded st" and "powerMarketData st \<noteq> []"
  shows "(js_le (prediction_hours cfg) (Num 0) \<longrightarrow>
            (\<exists>res. runPredictionAlgorithm e st cfg = Inr res
                   \<and> api_predict e st (Some cfg) = Json200 res
                   \<and> predictions res = []))
       \<and> map_sum id (map p_timestamp \<circ> predictions)
           (runPredictionAlgorithm e st (cfg\<lparr> confidence_level := level \<rparr>))
         = map_sum id (map p_timestamp \<circ> predictions) (runPredictionAlgorithm e st cfg)"
proof (intro conjI impI)
  assume "js_le (prediction_hours cfg) (Num 0)"
  then have "\<not> js_lt (Num (real 0)) (prediction_hours cfg)"
    by (cases "prediction_hours cfg") simp_all
  then have "prediction_loop e a s cfg bd 0 [] = Inr []" for a s bd
    by (rule prediction_loop_no_rounds)
  then show "\<exists>res. runPredictionAlgorithm e st cfg = Inr res
                   \<and> api_predict e st (Some cfg) = Json200 res
                   \<and> predictions res = []"
    by (simp add: api_predict_def runPredictionAlgorithm_loaded [OF assms])
next
  show "map_sum id (map p_timestamp \<circ> predictions)
           (runPredictionAlgorithm e st (cfg\<lparr> confidence_level := level \<rparr>))
         = map_sum id (map p_timestamp \<circ> predictions) (runPredictionAlgorithm e st cfg)"
    by (rule runPredictionAlgorithm_times)
qed

theorem forecast_accepts_any_horizon_and_level_witness:
  "isDataLoaded spike_store \<and> powerMarketData spike_store \<noteq> []
   \<and> js_le (prediction_hours \<lparr> prediction_date = Some 0, prediction_hours = Num (- 4), confidence_level = Num 2 \<rparr>) (Num 0)
   \<and> (\<exists>res. runPredictionAlgorithm utc_env spike_store
                \<lparr> prediction_date = Some 0, prediction_hours = Num (- 4), confidence_level = Num 2 \<rparr> = Inr res
            \<and> api_predict utc_env spike_store
                (Some \<lparr> prediction_date = Some 0, prediction_hours = Num (- 4), confidence_level = Num 2 \<rparr>)
              = Json200 res
            \<and> predictions res = [])"
proof -
  have l: "isDataLoaded spike_store" and n: "powerMarketData spike_store \<noteq> []"
    by (simp_all add: spike_store_def)
  show ?thesis
    using forecast_accepts_any_horizon_and_level
      [OF l n, of "\<lparr> prediction_date = Some 0, prediction_hours = Num (- 4), confidence_level = Num 2 \<rparr>"
          utc_env]
      l n
    by simp
qed

text \<open>
  Claim C5 as stated fails: a horizon of \<open>0\<close> and a confidence level of \<open>2\<close> are
  each answered with a success result.
\<close>

theorem forecast_validation_counterexample:
  "api_predict utc_env spike_store
     (Some \<lparr> prediction_date = Some 0, prediction_hours = Num 0, confidence_level = lit 0.95 \<rparr>)
   = Json200 \<lparr> p_success = True,
               predictions = [],
               statistics =
                 \<lparr> average_price = NaN, total_points = 0, s_confidence_level = lit 0.95,
                   based_on_real_data = True, real_data_points = 100 \<rparr>,
               accuracy = Num (3856207180935987 / 4503599627370496) \<rparr>
   \<and> api_predict utc_env spike_store
     (Some \<lparr> prediction_date = Some 0, prediction_hours = Num 1, confidence_level = Num 2 \<rparr>)
   = Json200 \<lparr> p_success = True,
               predictions =
                 [\<lparr> p_timestamp = 0, predicted_price = Num 0,
                    confidence_lower = Num (315 / 16),
                    confidence_upper = Num (- (325 / 16)), p_confidence_level = Num 2 \<rparr>],
               statistics =
                 \<lparr> average_price = Num 0, total_points = 1, s_confidence_level = Num 2,
                   based_on_real_data = True, real_data_points = 100 \<rparr>,
               accuracy = Num (3856207180935987 / 4503599627370496) \<rparr>"
proof -
  have l0: "prediction_loop utc_env (Num 1) (Num 10)
              \<lparr> prediction_date = Some 0, prediction_hours = Num 0, confidence_level = lit 0.95 \<rparr> (Some 0) 0 [] = Inr []"
    by (rule prediction_loop_no_rounds) simp
  have l2: "prediction_loop utc_env (Num 1) (Num 10)
              \<lparr> prediction_date = Some 0, prediction_hours = Num 1, confidence_level = Num 2 \<rparr> (Some 0) 0 []
            = Inr ([] @ map (\<lambda>k. prediction_point utc_env (Num 1) (Num 10)
                       (confidence_level \<lparr> prediction_date = Some 0, prediction_hours = Num 1, confidence_level = Num 2 \<rparr>)
                       (0 + int k * 900000) (math_random utc_env k)) [0..<1])"
    by (rule prediction_loop_in_range) simp_all
  show ?thesis
    using l0 l2 utc_point_2 utc_accuracy
    by (simp add: api_predict_def spike_run new_Date_def timeClip_def utc_random
          average_def reduce_sum_def js_div_len_def)
qed

subsection \<open>The confidence bounds\<close>

text \<open>
  Claim C1 at a request inside its domain: non-negative prices, confidence level
  \<open>0.99\<close>, one point. The unclamped prediction is \<open>-0.3125\<close>; the returned price and
  lower bound are clamped to \<open>0\<close>, the upper bound is not and comes out as
  -0.11249999999999982, below the returned price and below zero.
\<close>

theorem forecast_upper_bound_below_price:
  "runPredictionAlgorithm utc_env spike_store
     \<lparr> prediction_date = Some 0, prediction_hours = Num 1, confidence_level = lit 0.99 \<rparr>
   = Inr \<lparr> p_success = True,
           predictions =
             [\<lparr> p_timestamp = 0, predicted_price = Num 0, confidence_lower = Num 0,
                confidence_upper = Num (- (126663739519795 / 1125899906842624)),
                p_confidence_level = lit 0.99 \<rparr>],
           statistics =
             \<lparr> average_price = Num 0, total_points = 1, s_confidence_level = lit 0.99,
               based_on_real_data = True, real_data_points = 100 \<rparr>,
           accuracy = Num (3856207180935987 / 4503599627370496) \<rparr>"
proof -
  have loop: "prediction_loop utc_env (Num 1) (Num 10)
              \<lparr> prediction_date = Some 0, prediction_hours = Num 1, confidence_level = lit 0.99 \<rparr> (Some 0) 0 []
            = Inr ([] @ map (\<lambda>k. prediction_point utc_env (Num 1) (Num 10)
                       (confidence_level \<lparr> prediction_date = Some 0, prediction_hours = Num 1, confidence_level = lit 0.99 \<rparr>)
                       (0 + int k * 900000) (math_random utc_env k)) [0..<1])"
    by (rule prediction_loop_in_range) simp_all
  show ?thesis
    using loop utc_point_099 utc_accuracy
    by (simp add: spike_run new_Date_def timeClip_def utc_random
          average_def reduce_sum_def js_div_len_def)
qed

theorem forecast_upper_bound_below_price_witness:
  "\<exists>res p.
     runPredictionAlgorithm utc_env spike_store
       \<lparr> prediction_date = Some 0, prediction_hours = Num 1, confidence_level = lit 0.99 \<rparr> = Inr res
     \<and> p \<in> set (predictions res)
     \<and> js_lt (Num 0) (confidence_level \<lparr> prediction_date = Some 0, prediction_hours = Num 1, confidence_level = lit 0.99 \<rparr>)
     \<and> js_lt (confidence_level \<lparr> prediction_date = Some 0, prediction_hours = Num 1, confidence_level = lit 0.99 \<rparr>) (Num 1)
     \<and> js_lt (confidence_upper p) (predicted_price p)
     \<and> js_lt (confidence_upper p) (Num 0)"
  using forecast_upper_bound_below_price by (simp add: lit_0_99)

section \<open>Properties of the loader\<close>

text \<open>
  The white space skipped before a number never needs more rounds than the text has
  characters.
\<close>

lemma if3_le:
  assumes "c1 \<Longrightarrow> 1 \<le> n" and "c2 \<Longrightarrow> 2 \<le> n" and "c3 \<Longrightarrow> 3 \<le> n"
  shows "(if c1 then 1 else if c2 then 2 else if c3 then 3 else 0) \<le> (n::nat)"
  using assms by simp

lemma mem_length: "x \<in> A \<Longrightarrow> \<forall>y \<in> A. length y = k \<Longrightarrow> length x = k"
  by blast

lemma ws_bytes_le: "ws_bytes s \<le> length s"
  unfolding ws_bytes_def
proof (rule if3_le)
  assume "take 1 s \<in> {[CHR 0x09], [CHR 0x0A], [CHR 0x0B], [CHR 0x0C], [CHR 0x0D], [CHR 0x20]}"
  then have "length (take 1 s) = 1"
    by (rule mem_length) simp
  then show "1 \<le> length s"
    by simp
next
  assume "take 2 s = [CHR 0xC2, CHR 0xA0]"
  then have "length (take 2 s) = 2"
    by simp
  then show "2 \<le> length s"
    by simp
next
  assume "take 3 s \<in>
           {[CHR 0xE1, CHR 0x9A, CHR 0x80],
            [CHR 0xE2, CHR 0x80, CHR 0x80], [CHR 0xE2, CHR 0x80, CHR 0x81],
            [CHR 0xE2, CHR 0x80, CHR 0x82], [CHR 0xE2, CHR 0x80, CHR 0x83],
            [CHR 0xE2, CHR 0x80, CHR 0x84], [CHR 0xE2, CHR 0x80, CHR 0x85],
            [CHR 0xE2, CHR 0x80, CHR 0x86], [CHR 0xE2, CHR 0x80, CHR 0x87],
            [CHR 0xE2, CHR 0x80, CHR 0x88], [CHR 0xE2, CHR 0x80, CHR 0x89],
            [CHR 0xE2, CHR 0x80, CHR 0x8A],
            [CHR 0xE2, CHR 0x80, CHR 0xA8], [CHR 0xE2, CHR 0x80, CHR 0xA9],
            [CHR 0xE2, CHR 0x80, CHR 0xAF], [CHR 0xE2, CHR 0x81, CHR 0x9F],
            [CHR 0xE3, CHR 0x80, CHR 0x80], [CHR 0xEF, CHR 0xBB, CHR 0xBF]}"
  then have "length (take 3 s) = 3"
    by (rule mem_length) simp
  then show "3 \<le> length s"
    by simp
qed

lemma skip_ws_done: "length s \<le> n \<Longrightarrow> ws_bytes (skip_ws n s) = 0"
proof (induction n arbitrary: s)
  case 0
  then show ?case
    using ws_bytes_le [of s] by simp
next
  case (Suc n)
  show ?case
  proof (cases "ws_bytes s = 0")
    case True
    then show ?thesis by simp
  next
    case False
    then have "length (drop (ws_bytes s) s) \<le> n"
      using Suc.prems ws_bytes_le [of s] by simp
    then show ?thesis
      using False Suc.IH by simp
  qed
qed

text \<open>
  The \<^verbatim>\<open>isNaN\<close> test of the filter never fires: the price it tests has been
  through \<^verbatim>\<open>|| 0\<close>. An item is kept exactly when its timestamp is truthy.
\<close>

lemma or_zero_not_NaN: "\<not> isNaN (or_zero a)"
  by (cases a) (simp_all add: or_zero_def)

lemma retained_preprocess: "retained (preprocess r) = truthy (timestamp (preprocess r))"
  by (simp add: retained_def preprocess_def or_zero_not_NaN)

lemma unparseable_price_defaults_to_zero:
  "isNaN (parseFloat c) \<Longrightarrow> or_zero (parseFloat c) = Num 0"
  by (cases "parseFloat c") (simp_all add: or_zero_def)

lemma row_with_timestamp_is_kept:
  assumes "r \<in> set rows" and "truthy (timestamp (preprocess r))"
  shows "preprocess r \<in> set (powerMarketData (snd (loadExcelData (Sheet rows) Absent st)))"
  using assms by (simp add: loadExcelData_def read_source_def retained_preprocess)

text \<open>
  The store holds data only after a load has set the flag: the two variables change
  together, starting from the empty, unloaded state.
\<close>

lemma loaded_when_nonempty:
  assumes "powerMarketData st \<noteq> [] \<longrightarrow> isDataLoaded st"
  shows "powerMarketData (snd (loadExcelData mayFile juneFile st)) \<noteq> []
           \<longrightarrow> isDataLoaded (snd (loadExcelData mayFile juneFile st))"
  using assms by (simp add: loadExcelData_def split: sum.splits)

lemma unparseable_text: "parseFloat_string ''N/A'' = NaN"
  by (simp add: parseFloat_string_def parse_sign_def ws_bytes_def is_digit_def
        parse_exponent_def)

lemma infinity_text: "parseFloat_string ''Infinity'' = PInf"
  by (simp add: parseFloat_string_def parse_sign_def ws_bytes_def is_digit_def
        parse_exponent_def)

lemma sample_row_time:
  "get [(key_time_zh, Str t), (key_price_zh, Str p)] key_time_zh = Str t"
  by (simp add: get_def)

lemma sample_row_price:
  "get [(key_time_zh, Str t), (key_price_zh, Str p)] key_price_zh = Str p"
  by (simp add: get_def key_time_zh_def key_price_zh_def)

lemma sample_row_other:
  "get [(key_time_zh, Str t), (key_price_zh, Str p)] key_load_zh = Undefined"
  "get [(key_time_zh, Str t), (key_price_zh, Str p)] key_demand_zh = Undefined"
  "get [(key_time_zh, Str t), (key_price_zh, Str p)] key_supply_zh = Undefined"
  "get [(key_time_zh, Str t), (key_price_zh, Str p)] ''load'' = Undefined"
  "get [(key_time_zh, Str t), (key_price_zh, Str p)] ''Load'' = Undefined"
  "get [(key_time_zh, Str t), (key_price_zh, Str p)] ''demand'' = Undefined"
  "get [(key_time_zh, Str t), (key_price_zh, Str p)] ''Demand'' = Undefined"
  "get [(key_time_zh, Str t), (key_price_zh, Str p)] ''supply'' = Undefined"
  "get [(key_time_zh, Str t), (key_price_zh, Str p)] ''Supply'' = Undefined"
  by (simp_all add: get_def key_time_zh_def key_price_zh_def key_load_zh_def key_demand_zh_def
        key_supply_zh_def)

lemma sample_row_preprocess:
  assumes "t \<noteq> []" and "p \<noteq> []"
  shows "preprocess [(key_time_zh, Str t), (key_price_zh, Str p)]
     = \<lparr> timestamp = Str t, price = or_zero (parseFloat_string p), load = Num 0,
         demand = Num 0, supply_val = Num 0 \<rparr>"
  unfolding preprocess_def sample_row_time sample_row_price sample_row_other
  using assms by (simp add: js_or_def or_zero_def)

text \<open>
  A row whose price text is \<^verbatim>\<open>Infinity\<close> is loaded with that price: the store of
  the forecast can hold an infinite price.
\<close>

lemma infinite_price_row_is_loaded:
  "loadExcelData
     (Sheet [[(key_time_zh, Str ''2025-06-30''), (key_price_zh, Str ''Infinity'')]])
     Absent initial_state
   = (True, single_store PInf)"
  by (simp add: loadExcelData_def read_source_def sample_row_preprocess retained_def
        infinity_text or_zero_def single_store_def sample_observation_def)

text \<open>
  Claim C6 at a row with a timestamp and the price text \<open>N/A\<close>, which
  \<^verbatim>\<open>parseFloat\<close> turns into \<^verbatim>\<open>NaN\<close>: the row is not discarded, it is in the
  store with price \<open>0\<close>.
\<close>

theorem unparseable_price_row_is_kept:
  "parseFloat (Str ''N/A'') = NaN
   \<and> loadExcelData
       (Sheet [[(key_time_zh, Str ''2025-05-01 00:00''), (key_price_zh, Str ''N/A'')]])
       Absent initial_state
     = (True,
        \<lparr> powerMarketData =
            [\<lparr> timestamp = Str ''2025-05-01 00:00'', price = Num 0, load = Num 0,
               demand = Num 0, supply_val = Num 0 \<rparr>],
          isDataLoaded = True \<rparr>)"
  by (simp add: loadExcelData_def read_source_def sample_row_preprocess retained_def
        unparseable_text or_zero_def)

end
